theory Spec2Isabelle
  imports Complex_Main "HOL-Library.AList"
begin

section \<open>Python values\<close>

text \<open>
  The scripts pass around what \<open>json.load\<close> and \<open>json.loads\<close> return: \<open>None\<close>, \<open>bool\<close>,
  \<open>int\<close>, \<open>float\<close>, \<open>str\<close>, \<open>list\<close> and \<open>dict\<close>. A finite float is the rational it denotes;
  the decoder also accepts the literals \<open>Infinity\<close>, \<open>-Infinity\<close> and \<open>NaN\<close>. A dict is the list
  of its key/value pairs in insertion order and stands for the mapping \<open>map_of\<close> of that list.
  A \<open>str\<close> is a \<open>string\<close>: steps 1 and 4 compare and concatenate strings and test them for
  emptiness; where a str is taken apart (\<open>list(s)\<close>, \<open>in\<close> on a str) a character is a \<open>char\<close>.
  Step 2 cuts characters off a reply and has a representation of its own.
\<close>

datatype pyfloat = Finite rat | PosInf | NegInf | NaN

datatype json =
    JNull
  | JBool bool
  | JInt int
  | JFloat pyfloat
  | JStr string
  | JArr "json list"
  | JObj "(string \<times> json) list"

type_synonym item = "(string \<times> json) list"

text \<open>The value of a member of Python's numeric tower (\<open>bool\<close> is a subclass of \<open>int\<close>).\<close>

fun num_val :: "json \<Rightarrow> pyfloat option" where
  "num_val (JBool b) = Some (Finite (if b then 1 else 0))"
| "num_val (JInt i) = Some (Finite (of_int i))"
| "num_val (JFloat f) = Some f"
| "num_val _ = None"

text \<open>
  \<open>py_eq\<close> is the comparison that \<open>x in xs\<close> performs on decoded values (identity or \<open>==\<close>):
  numbers compare by value across \<open>bool\<close>, \<open>int\<close> and \<open>float\<close>, lists element by element, dicts
  key by key whatever the insertion order. The decoder returns one shared object for \<open>NaN\<close>,
  so inside a container comparison it is found equal to itself by identity.
\<close>

fun py_eq :: "json \<Rightarrow> json \<Rightarrow> bool" where
  "py_eq JNull JNull = True"
| "py_eq (JStr s) (JStr t) = (s = t)"
| "py_eq (JArr xs) (JArr ys) = list_all2 py_eq xs ys"
| "py_eq (JObj a) (JObj b) =
     (fst ` set a = fst ` set b \<and>
      (\<forall>(k, v) \<in> set a. map_of a k = Some v \<longrightarrow>
         (case map_of b k of Some w \<Rightarrow> py_eq v w | None \<Rightarrow> False)))"
| "py_eq x y = (case (num_val x, num_val y) of (Some p, Some q) \<Rightarrow> p = q | _ \<Rightarrow> False)"

text \<open>\<open>x in xs\<close> for a list \<open>xs\<close>.\<close>

definition py_in :: "json \<Rightarrow> json list \<Rightarrow> bool" where
  "py_in x xs = list_ex (\<lambda>e. py_eq e x) xs"

text \<open>\<open>exp in llm_selected\<close> for dicts.\<close>

definition item_in :: "item \<Rightarrow> item list \<Rightarrow> bool" where
  "item_in e es = py_in (JObj e) (map JObj es)"

text \<open>The slice \<open>xs[:k]\<close>: a negative \<open>k\<close> counts from the end.\<close>

definition py_take :: "int \<Rightarrow> 'a list \<Rightarrow> 'a list" where
  "py_take k xs = (if 0 \<le> k then take (nat k) xs else take (length xs - nat (- k)) xs)"

text \<open>\<open>isinstance(idx, int)\<close>, with the value: \<open>True\<close> is \<open>1\<close> and \<open>False\<close> is \<open>0\<close>.\<close>

fun as_int :: "json \<Rightarrow> int option" where
  "as_int (JInt i) = Some i"
| "as_int (JBool b) = Some (if b then 1 else 0)"
| "as_int _ = None"

text \<open>What \<open>for x in v\<close> accepts: a list, a str (its characters) or a dict (its keys).\<close>

fun iterable :: "json \<Rightarrow> bool" where
  "iterable (JArr xs) = True"
| "iterable (JStr s) = True"
| "iterable (JObj d) = True"
| "iterable _ = False"

fun is_str :: "json \<Rightarrow> bool" where
  "is_str (JStr s) = True"
| "is_str _ = False"

text \<open>What \<open>', '.join(v)\<close> accepts: an iterable whose elements are all \<open>str\<close>.\<close>

fun joinable :: "json \<Rightarrow> bool" where
  "joinable (JArr xs) = list_all is_str xs"
| "joinable (JStr s) = True"
| "joinable (JObj d) = True"
| "joinable _ = False"

section \<open>The external service\<close>

text \<open>
  What one call of the text-generation service amounts to for a caller that decodes the reply
  as JSON: \<open>Raised\<close> is any exception that reaches the caller's outer \<open>except Exception\<close>
  (the request fails, the message has no content), \<open>NotJSON\<close> is \<open>json.loads\<close> raising
  \<open>JSONDecodeError\<close> on the stripped text, \<open>Parsed v\<close> is the decoded value.
\<close>

datatype reply = Raised | NotJSON | Parsed json

section \<open>Step 1: priority tiers and ranking (step1\_relevance\_filter.py)\<close>

text \<open>The four list comprehensions of lines 62-67 and 183-188.\<close>

definition high_priority :: "item list \<Rightarrow> item list" where
  "high_priority items = filter (\<lambda>e. map_of e ''priority'' = Some (JStr ''high'')) items"

definition medium_priority :: "item list \<Rightarrow> item list" where
  "medium_priority items = filter (\<lambda>e. map_of e ''priority'' = Some (JStr ''medium'')) items"

definition low_priority :: "item list \<Rightarrow> item list" where
  "low_priority items = filter (\<lambda>e. map_of e ''priority'' = Some (JStr ''low'')) items"

definition no_priority :: "item list \<Rightarrow> item list" where
  "no_priority items = filter (\<lambda>e. map_of e ''priority'' = None) items"

text \<open>\<open>remaining_experiences = medium_priority + low_priority + no_priority\<close>.\<close>

definition ranking_pool :: "item list \<Rightarrow> item list" where
  "ranking_pool items = medium_priority items @ low_priority items @ no_priority items"

text \<open>
  The prompt is built before the \<open>try\<close>, so an exception there leaves the function. For an
  experience the summary iterates over \<open>exp.get('bullets', [])\<close>; for a project it also joins
  \<open>proj.get('tech', [])\<close>. Everything else is formatted into the f-string as it is.
\<close>

definition exp_summary_ok :: "item \<Rightarrow> bool" where
  "exp_summary_ok e = (case map_of e ''bullets'' of None \<Rightarrow> True | Some b \<Rightarrow> iterable b)"

definition proj_summary_ok :: "item \<Rightarrow> bool" where
  "proj_summary_ok proj =
     ((case map_of proj ''tech'' of None \<Rightarrow> True | Some t \<Rightarrow> joinable t) \<and>
      (case map_of proj ''bullets'' of None \<Rightarrow> True | Some b \<Rightarrow> iterable b))"

text \<open>
  The loop of lines 143-146: \<open>llm_selected\<close> is the accumulator, and an index is kept when
  \<open>isinstance(idx, int) and 1 <= idx <= len(remaining_experiences)\<close>.
\<close>

fun validate_indices :: "item list \<Rightarrow> json list \<Rightarrow> item list \<Rightarrow> item list" where
  "validate_indices pool [] llm_selected = llm_selected"
| "validate_indices pool (idx # rest) llm_selected =
     validate_indices pool rest
       (case as_int idx of
          Some i \<Rightarrow>
            if 1 \<le> i \<and> i \<le> int (length pool) then llm_selected @ [pool ! nat (i - 1)]
            else llm_selected
        | None \<Rightarrow> llm_selected)"

text \<open>Lines 149-153: fill up with the pool items that are not \<open>in llm_selected\<close>.\<close>

definition fill_remaining :: "item list \<Rightarrow> int \<Rightarrow> item list \<Rightarrow> item list" where
  "fill_remaining pool remaining_slots llm_selected =
     (if int (length llm_selected) < remaining_slots
      then llm_selected @
           py_take (remaining_slots - int (length llm_selected))
             (filter (\<lambda>e. \<not> item_in e llm_selected) pool)
      else llm_selected)"

text \<open>
  The body shared, line for line, by \<open>llm_rank_experiences\<close> and \<open>llm_rank_projects\<close>; only
  the prompt differs. The result is \<open>None\<close> when building the prompt raises, and otherwise
  the selection together with the number of service calls made.
\<close>

definition rank_items ::
  "(item \<Rightarrow> bool) \<Rightarrow> reply \<Rightarrow> item list \<Rightarrow> int \<Rightarrow> (item list \<times> nat) option" where
  "rank_items summary_ok client items max_count =
     (if int (length items) \<le> max_count then Some (items, 0)
      else
        let selected = high_priority items;
            remaining_slots = max_count - int (length selected)
        in
          if remaining_slots \<le> 0 then Some (py_take max_count selected, 0)
          else
            let remaining = ranking_pool items in
              if remaining = [] then Some (selected, 0)
              else if int (length remaining) \<le> remaining_slots
              then Some (selected @ remaining, 0)
              else if \<not> list_all summary_ok remaining then None
              else
                (case client of
                   Parsed (JArr selected_indices) \<Rightarrow>
                     let llm_selected =
                           fill_remaining remaining remaining_slots
                             (validate_indices remaining
                                (py_take remaining_slots selected_indices) [])
                     in Some (py_take max_count (selected @ llm_selected), 1)
                 | _ \<Rightarrow>
                     Some (py_take max_count
                             (selected @ py_take remaining_slots remaining), 1)))"

definition llm_rank_experiences :: "reply \<Rightarrow> item list \<Rightarrow> int \<Rightarrow> (item list \<times> nat) option" where
  "llm_rank_experiences client experiences max_count =
     (if int (length experiences) \<le> max_count then Some (experiences, 0)
      else
        let selected_experiences = high_priority experiences;
            remaining_slots = max_count - int (length selected_experiences)
        in
          if remaining_slots \<le> 0 then Some (py_take max_count selected_experiences, 0)
          else
            let remaining_experiences = ranking_pool experiences in
              if remaining_experiences = [] then Some (selected_experiences, 0)
              else if int (length remaining_experiences) \<le> remaining_slots
              then Some (selected_experiences @ remaining_experiences, 0)
              else if \<not> list_all exp_summary_ok remaining_experiences then None
              else
                (case client of
                   Parsed (JArr selected_indices) \<Rightarrow>
                     let llm_selected =
                           fill_remaining remaining_experiences remaining_slots
                             (validate_indices remaining_experiences
                                (py_take remaining_slots selected_indices) [])
                     in Some (py_take max_count (selected_experiences @ llm_selected), 1)
                 | _ \<Rightarrow>
                     Some (py_take max_count
                             (selected_experiences @
                              py_take remaining_slots remaining_experiences), 1)))"

definition llm_rank_projects :: "reply \<Rightarrow> item list \<Rightarrow> int \<Rightarrow> (item list \<times> nat) option" where
  "llm_rank_projects client projects max_count =
     (if int (length projects) \<le> max_count then Some (projects, 0)
      else
        let selected_projects = high_priority projects;
            remaining_slots = max_count - int (length selected_projects)
        in
          if remaining_slots \<le> 0 then Some (py_take max_count selected_projects, 0)
          else
            let remaining_projects = ranking_pool projects in
              if remaining_projects = [] then Some (selected_projects, 0)
              else if int (length remaining_projects) \<le> remaining_slots
              then Some (selected_projects @ remaining_projects, 0)
              else if \<not> list_all proj_summary_ok remaining_projects then None
              else
                (case client of
                   Parsed (JArr selected_indices) \<Rightarrow>
                     let llm_selected =
                           fill_remaining remaining_projects remaining_slots
                             (validate_indices remaining_projects
                                (py_take remaining_slots selected_indices) [])
                     in Some (py_take max_count (selected_projects @ llm_selected), 1)
                 | _ \<Rightarrow>
                     Some (py_take max_count
                             (selected_projects @
                              py_take remaining_slots remaining_projects), 1)))"

subsection \<open>Skill categories\<close>

text \<open>The three categories that \<open>llm_filter_skills\<close> and the dry run of \<open>main\<close> loop over.\<close>

definition categories :: "string list" where
  "categories = [''languages'', ''technologies'', ''concepts'']"

text \<open>
  Lines 356-366: the skills of the reply that are \<open>in skill_list\<close>, filled up with the
  skills of the list that are not \<open>in valid_skills\<close>, cut at \<open>max_per_category\<close>.
\<close>

definition select_skills :: "json list \<Rightarrow> int \<Rightarrow> json list \<Rightarrow> json list" where
  "select_skills skill_list max_per_category selected_skills =
     (let valid_skills = filter (\<lambda>skill. py_in skill skill_list) selected_skills;
          valid_skills =
            (if int (length valid_skills) < max_per_category
             then valid_skills @
                  py_take (max_per_category - int (length valid_skills))
                    (filter (\<lambda>skill. \<not> py_in skill valid_skills) skill_list)
             else valid_skills)
      in py_take max_per_category valid_skills)"

text \<open>
  The loop body for a category whose value is a list (lines 304-378). The prompt joins the
  skills with \<open>', '.join(skill_list)\<close> before the \<open>try\<close>, which raises \<open>TypeError\<close> on an
  element that is not a \<open>str\<close>: the result is then \<open>None\<close>. Here the reply is the decoding
  of the text after the markdown fences are removed (lines 343-351).
\<close>

definition filter_category :: "reply \<Rightarrow> json list \<Rightarrow> int \<Rightarrow> json list option" where
  "filter_category client skill_list max_per_category =
     (if int (length skill_list) \<le> max_per_category then Some skill_list
      else if \<not> list_all is_str skill_list then None
      else
        (case client of
           Parsed (JArr selected_skills) \<Rightarrow>
             Some (select_skills skill_list max_per_category selected_skills)
         | _ \<Rightarrow> Some (py_take max_per_category skill_list)))"

text \<open>
  The loop of line 300 with the dict \<open>filtered_skills\<close> as accumulator. A category that is
  absent or whose value is not a list is skipped (line 301). The service is called once per
  category, so the client is a function of the category.
\<close>

fun filter_loop ::
  "(string \<Rightarrow> reply) \<Rightarrow> item \<Rightarrow> int \<Rightarrow> string list \<Rightarrow> (string \<times> json list) list
     \<Rightarrow> (string \<times> json list) list option" where
  "filter_loop client skills max_per_category [] filtered_skills = Some filtered_skills"
| "filter_loop client skills max_per_category (category # rest) filtered_skills =
     (case map_of skills category of
        Some (JArr skill_list) \<Rightarrow>
          (case filter_category (client category) skill_list max_per_category of
             None \<Rightarrow> None
           | Some chosen \<Rightarrow>
               filter_loop client skills max_per_category rest
                 (filtered_skills @ [(category, chosen)]))
      | _ \<Rightarrow> filter_loop client skills max_per_category rest filtered_skills)"

definition llm_filter_skills ::
  "(string \<Rightarrow> reply) \<Rightarrow> item \<Rightarrow> int \<Rightarrow> (string \<times> json list) list option" where
  "llm_filter_skills client skills max_per_category =
     filter_loop client skills max_per_category categories []"



text \<open>The list stored under a category, if there is one.\<close>

definition category_list :: "item \<Rightarrow> string \<Rightarrow> json list option" where
  "category_list skills category =
     (case map_of skills category of Some (JArr skill_list) \<Rightarrow> Some skill_list | _ \<Rightarrow> None)"

subsection \<open>The selection made by main\<close>



subsection \<open>The ranking step in the words of the specification\<close>

text \<open>
  A JSON integer, as opposed to what \<open>isinstance(idx, int)\<close> accepts.
\<close>

fun json_integer :: "json \<Rightarrow> int option" where
  "json_integer (JInt i) = Some i"
| "json_integer _ = None"

text \<open>
  The pool items that have not been selected: those whose position, counted from 1, is not
  among the surviving indices, in pool order.
\<close>

definition unselected :: "item list \<Rightarrow> int list \<Rightarrow> item list" where
  "unselected pool surviving =
     map (\<lambda>k. pool ! k) (filter (\<lambda>k. int k + 1 \<notin> set surviving) [0..<length pool])"

text \<open>
  The ranking step as the specification words it: every element of the response that is
  not an integer in \<open>[1, len(pool)]\<close> is dropped, the surviving indices are mapped to pool
  items in the order given, and if fewer than \<open>remaining_slots\<close> items were recovered, pool
  items not already selected are appended in pool order until the slots are filled or the
  pool is exhausted.
\<close>

definition claimed_ranking :: "item list \<Rightarrow> int \<Rightarrow> json list \<Rightarrow> item list" where
  "claimed_ranking pool remaining_slots response =
     (let surviving = filter (\<lambda>i. 1 \<le> i \<and> i \<le> int (length pool))
                        (List.map_filter json_integer response);
          recovered = map (\<lambda>i. pool ! nat (i - 1)) surviving
      in if int (length recovered) < remaining_slots
         then recovered @
              take (nat (remaining_slots - int (length recovered))) (unselected pool surviving)
         else recovered)"

text \<open>
  The same step when only the first \<open>remaining_slots\<close> elements of the response are
  examined.
\<close>

definition examined_ranking :: "item list \<Rightarrow> int \<Rightarrow> json list \<Rightarrow> item list" where
  "examined_ranking pool remaining_slots response =
     (let examined = take (nat remaining_slots) response;
          surviving = filter (\<lambda>i. 1 \<le> i \<and> i \<le> int (length pool))
                        (List.map_filter json_integer examined);
          recovered = map (\<lambda>i. pool ! nat (i - 1)) surviving
      in if int (length recovered) < remaining_slots
         then recovered @
              take (nat (remaining_slots - int (length recovered))) (unselected pool surviving)
         else recovered)"

text \<open>No two items of the pool, at different positions, are equal.\<close>

definition pairwise_unequal :: "item list \<Rightarrow> bool" where
  "pairwise_unequal pool =
     (\<forall>i \<in> {..<length pool}. \<forall>j \<in> {..<length pool}.
        py_eq (JObj (pool ! i)) (JObj (pool ! j)) \<longrightarrow> i = j)"

fun is_bool :: "json \<Rightarrow> bool" where
  "is_bool (JBool b) = True"
| "is_bool _ = False"

subsection \<open>Sample entries\<close>

definition entry :: "string \<Rightarrow> string \<Rightarrow> item" where
  "entry name prio = [(''company'', JStr name), (''priority'', JStr prio)]"

definition plain_entry :: "string \<Rightarrow> item" where
  "plain_entry name = [(''company'', JStr name), (''bullets'', JArr [JStr ''Built it''])]"

definition five_experiences :: "item list" where
  "five_experiences =
     [entry ''Acme'' ''medium'', entry ''Bolt'' ''high'', plain_entry ''Cord'',
      entry ''Dune'' ''high'', entry ''Echo'' ''medium'']"

definition three_plain :: "item list" where
  "three_plain = [plain_entry ''A'', plain_entry ''B'', plain_entry ''C'']"

definition sample_skills :: item where
  "sample_skills =
     [(''languages'', JArr [JStr ''Python'', JStr ''Go'', JStr ''Rust'']),
      (''technologies'', JStr ''Docker''),
      (''soft'', JArr [JStr ''Writing''])]"

definition sample_skill_reply :: "string \<Rightarrow> reply" where
  "sample_skill_reply category = Parsed (JArr [JStr ''Rust'', JStr ''COBOL''])"


definition repeated_entries :: "item list" where
  "repeated_entries = [entry ''Acme'' ''medium'', entry ''Acme'' ''medium'', entry ''Acme'' ''medium'']"

section \<open>Properties of step 1\<close>

lemma llm_rank_experiences_rank_items:
  "llm_rank_experiences = rank_items exp_summary_ok"
  by (simp add: fun_eq_iff llm_rank_experiences_def rank_items_def)

lemma llm_rank_projects_rank_items:
  "llm_rank_projects = rank_items proj_summary_ok"
  by (simp add: fun_eq_iff llm_rank_projects_def rank_items_def)

lemma py_take_nonneg: "0 \<le> k \<Longrightarrow> py_take k xs = take (nat k) xs"
  by (simp add: py_take_def)

lemma rank_items_short:
  "int (length items) \<le> max_count \<Longrightarrow> rank_items ok client items max_count = Some (items, 0)"
  by (simp add: rank_items_def)

text \<open>
  C6. When the list has at most \<open>max_count\<close> items, \<open>llm_rank_experiences\<close> and
  \<open>llm_rank_projects\<close> return the input list itself, in input order, whatever the service
  would have answered, and make no service call.
\<close>

theorem small_input_returned_unchanged:
  assumes "int (length items) \<le> max_count"
  shows "llm_rank_experiences client items max_count = Some (items, 0)
       \<and> llm_rank_projects client items max_count = Some (items, 0)"
  using assms
  by (simp add: llm_rank_experiences_rank_items llm_rank_projects_rank_items rank_items_short)

theorem small_input_returned_unchanged_witness:
  "int (length five_experiences) \<le> 10
   \<and> llm_rank_experiences (Parsed (JArr [JInt 4, JInt 1])) five_experiences 10
       = Some (five_experiences, 0)
   \<and> llm_rank_projects Raised five_experiences 10 = Some (five_experiences, 0)"
proof -
  have len: "int (length five_experiences) \<le> 10"
    by (simp add: five_experiences_def)
  show ?thesis
    using small_input_returned_unchanged [OF len, of "Parsed (JArr [JInt 4, JInt 1])"]
      small_input_returned_unchanged [OF len, of Raised] len
    by simp
qed

subsection \<open>The tiers and the loop\<close>

lemma length_tiers:
  "length (high_priority items) + length (ranking_pool items) \<le> length items"
  by (induction items)
    (auto simp: high_priority_def ranking_pool_def medium_priority_def low_priority_def
       no_priority_def)

lemma validate_indices_eq:
  "validate_indices pool idxs acc =
     acc @ map (\<lambda>i. pool ! nat (i - 1))
             (filter (\<lambda>i. 1 \<le> i \<and> i \<le> int (length pool)) (List.map_filter as_int idxs))"
  by (induction idxs arbitrary: acc) (auto split: option.splits)

lemma length_validate_indices:
  "length (validate_indices pool idxs []) \<le> length idxs"
proof -
  have "length (filter (\<lambda>i. 1 \<le> i \<and> i \<le> int (length pool)) (List.map_filter as_int idxs))
          \<le> length (List.map_filter as_int idxs)"
    by (rule length_filter_le)
  also have "\<dots> \<le> length idxs"
    by (simp add: List.map_filter_def)
  finally show ?thesis by (simp add: validate_indices_eq)
qed

lemma length_fill_remaining:
  assumes "int (length sel) \<le> rs"
  shows "int (length (fill_remaining pool rs sel)) \<le> rs"
  using assms by (auto simp: fill_remaining_def py_take_def)

subsection \<open>The shared body\<close>

lemma rank_items_high:
  assumes "rank_items ok client items mc = Some (sel, n)" and "mc < int (length items)"
  shows "(mc < int (length (high_priority items)) \<longrightarrow>
            sel = py_take mc (high_priority items) \<and> n = 0) \<and>
         (int (length (high_priority items)) \<le> mc \<longrightarrow>
            (\<exists>rest. sel = high_priority items @ rest))"
  using assms
  by (auto simp: rank_items_def Let_def py_take_def split: if_splits reply.splits json.splits)

lemma rank_items_total:
  assumes "list_all ok (ranking_pool items)"
  shows "rank_items ok client items mc \<noteq> None"
  using assms
  by (auto simp: rank_items_def Let_def split: if_splits reply.splits json.splits)

lemma rank_items_length:
  assumes "rank_items ok client items mc = Some (sel, n)" and "0 \<le> mc"
  shows "int (length sel) \<le> mc"
  using assms
  by (auto simp: rank_items_def Let_def py_take_def split: if_splits reply.splits json.splits)

lemma rank_items_fallback:
  assumes "client = Raised \<or> client = NotJSON \<or>
           (\<exists>v. client = Parsed v \<and> (\<forall>xs. v \<noteq> JArr xs))"
    and "int (length (high_priority items)) < mc"
    and "mc - int (length (high_priority items)) < int (length (ranking_pool items))"
    and "list_all ok (ranking_pool items)"
  shows "rank_items ok client items mc =
           Some (high_priority items @
                 take (nat (mc - int (length (high_priority items)))) (ranking_pool items), 1)"
proof -
  have "mc < int (length items)"
    using length_tiers [of items] assms(2,3) by linarith
  moreover have "nat mc - length (high_priority items)
                   = nat (mc - int (length (high_priority items)))"
    by linarith
  ultimately show ?thesis
    using assms
    by (auto simp: rank_items_def Let_def py_take_def split: reply.splits json.splits)
qed

lemma rank_items_parsed:
  assumes "client = Parsed (JArr idxs)"
    and "int (length (high_priority items)) < mc"
    and "mc - int (length (high_priority items)) < int (length (ranking_pool items))"
    and "list_all ok (ranking_pool items)"
  shows "rank_items ok client items mc =
           Some (high_priority items @
                 fill_remaining (ranking_pool items) (mc - int (length (high_priority items)))
                   (validate_indices (ranking_pool items)
                      (take (nat (mc - int (length (high_priority items)))) idxs) []), 1)"
proof -
  let ?H = "high_priority items" and ?P = "ranking_pool items"
  let ?rs = "mc - int (length ?H)"
  let ?V = "validate_indices ?P (take (nat ?rs) idxs) []"
  have rs: "0 < ?rs" using assms(2) by simp
  have gt: "mc < int (length items)"
    using length_tiers [of items] assms(2,3) by linarith
  have ne: "?P \<noteq> []" using assms(3) rs by auto
  have lenV: "int (length ?V) \<le> ?rs"
    using length_validate_indices [of ?P "take (nat ?rs) idxs"] rs
    by simp linarith
  have lenF: "int (length (fill_remaining ?P ?rs ?V)) \<le> ?rs"
    by (rule length_fill_remaining [OF lenV])
  have trunc: "py_take mc (?H @ fill_remaining ?P ?rs ?V) = ?H @ fill_remaining ?P ?rs ?V"
    using lenF assms(2) by (simp add: py_take_def)
  have sl: "py_take ?rs idxs = take (nat ?rs) idxs"
    using rs by (simp add: py_take_def)
  show ?thesis
    using gt rs ne assms(1,3,4) trunc sl
    by (simp add: rank_items_def Let_def)
qed

lemma map_filter_as_int:
  "list_all (\<lambda>j. \<not> is_bool j) xs \<Longrightarrow> List.map_filter as_int xs = List.map_filter json_integer xs"
proof (induction xs)
  case Nil
  then show ?case by simp
next
  case (Cons x xs)
  then show ?case by (cases x) (simp_all add: List.map_filter_simps)
qed

lemma py_eq_refl: "py_eq x x"
proof (induction x)
  case (JArr xs)
  then show ?case by (simp add: list_all2_same)
next
  case (JObj d)
  then show ?case by (fastforce simp: snds.simps)
qed simp_all

lemma item_in_recovered:
  assumes "pairwise_unequal pool" and "k < length pool"
    and "\<forall>i \<in> set surviving. 1 \<le> i \<and> i \<le> int (length pool)"
  shows "item_in (pool ! k) (map (\<lambda>i. pool ! nat (i - 1)) surviving)
           \<longleftrightarrow> int k + 1 \<in> set surviving"
proof
  assume "item_in (pool ! k) (map (\<lambda>i. pool ! nat (i - 1)) surviving)"
  then obtain i where i: "i \<in> set surviving"
    and eq: "py_eq (JObj (pool ! nat (i - 1))) (JObj (pool ! k))"
    by (auto simp: item_in_def py_in_def list_ex_iff)
  have "nat (i - 1) < length pool" using assms(3) i by auto
  then have "nat (i - 1) = k"
    using assms(1,2) eq unfolding pairwise_unequal_def by blast
  then have "i = int k + 1" using assms(3) i by auto
  then show "int k + 1 \<in> set surviving" using i by simp
next
  assume "int k + 1 \<in> set surviving"
  then have "pool ! k \<in> (\<lambda>i. pool ! nat (i - 1)) ` set surviving"
    by (rule rev_image_eqI) simp
  then show "item_in (pool ! k) (map (\<lambda>i. pool ! nat (i - 1)) surviving)"
    using py_eq_refl [of "JObj (pool ! k)"]
    by (auto simp: item_in_def py_in_def list_ex_iff simp del: py_eq.simps)
qed

lemma filter_unselected:
  assumes "pairwise_unequal pool"
    and "\<forall>i \<in> set surviving. 1 \<le> i \<and> i \<le> int (length pool)"
  shows "filter (\<lambda>e. \<not> item_in e (map (\<lambda>i. pool ! nat (i - 1)) surviving)) pool
           = unselected pool surviving"
proof -
  let ?R = "map (\<lambda>i. pool ! nat (i - 1)) surviving"
  have "filter (\<lambda>e. \<not> item_in e ?R) pool
          = filter (\<lambda>e. \<not> item_in e ?R) (map (\<lambda>k. pool ! k) [0..<length pool])"
    by (simp add: map_nth)
  also have "\<dots> = map (\<lambda>k. pool ! k) (filter (\<lambda>k. \<not> item_in (pool ! k) ?R) [0..<length pool])"
    by (simp add: filter_map comp_def)
  also have "filter (\<lambda>k. \<not> item_in (pool ! k) ?R) [0..<length pool]
               = filter (\<lambda>k. int k + 1 \<notin> set surviving) [0..<length pool]"
    by (rule filter_cong) (auto simp: item_in_recovered [OF assms(1) _ assms(2)])
  finally show ?thesis by (simp add: unselected_def)
qed

lemma fill_remaining_examined:
  assumes "0 < rs" and "list_all (\<lambda>j. \<not> is_bool j) (take (nat rs) idxs)"
    and "pairwise_unequal pool"
  shows "fill_remaining pool rs (validate_indices pool (take (nat rs) idxs) [])
           = examined_ranking pool rs idxs"
proof -
  let ?S = "filter (\<lambda>i. 1 \<le> i \<and> i \<le> int (length pool))
              (List.map_filter json_integer (take (nat rs) idxs))"
  have "\<forall>i \<in> set ?S. 1 \<le> i \<and> i \<le> int (length pool)" by simp
  note f = filter_unselected [OF assms(3) this]
  show ?thesis
    using assms(1,2)
    by (simp add: fill_remaining_def examined_ranking_def Let_def validate_indices_eq py_take_def
          map_filter_as_int f)
qed

subsection \<open>High-priority items\<close>

text \<open>
  C1. When the list has more than \<open>max_count\<close> items, every selection that
  \<open>llm_rank_experiences\<close> or \<open>llm_rank_projects\<close> returns, whatever the service answers,
  contains every item whose \<open>priority\<close> is \<open>'high'\<close> (they are its first items, in input
  order), unless there are more than \<open>max_count\<close> of them: then the selection is the slice
  \<open>[:max_count]\<close> of the high-priority items, which for \<open>max_count \<ge> 0\<close> is the first
  \<open>max_count\<close> of them in input order, and the service is not called. The function returns
  whenever the prompt can be built for the pool.
\<close>

theorem high_priority_items_kept:
  assumes "max_count < int (length items)"
  shows "(\<forall>sel n. llm_rank_experiences client items max_count = Some (sel, n) \<longrightarrow>
            (max_count < int (length (high_priority items)) \<longrightarrow>
               sel = py_take max_count (high_priority items) \<and> n = 0 \<and>
               (0 \<le> max_count \<longrightarrow> sel = take (nat max_count) (high_priority items))) \<and>
            (int (length (high_priority items)) \<le> max_count \<longrightarrow>
               (\<forall>e \<in> set items. map_of e ''priority'' = Some (JStr ''high'') \<longrightarrow> e \<in> set sel) \<and>
               take (length (high_priority items)) sel = high_priority items))
       \<and> (\<forall>sel n. llm_rank_projects client items max_count = Some (sel, n) \<longrightarrow>
            (max_count < int (length (high_priority items)) \<longrightarrow>
               sel = py_take max_count (high_priority items) \<and> n = 0 \<and>
               (0 \<le> max_count \<longrightarrow> sel = take (nat max_count) (high_priority items))) \<and>
            (int (length (high_priority items)) \<le> max_count \<longrightarrow>
               (\<forall>e \<in> set items. map_of e ''priority'' = Some (JStr ''high'') \<longrightarrow> e \<in> set sel) \<and>
               take (length (high_priority items)) sel = high_priority items))
       \<and> (list_all exp_summary_ok (ranking_pool items) \<longrightarrow>
            llm_rank_experiences client items max_count \<noteq> None)
       \<and> (list_all proj_summary_ok (ranking_pool items) \<longrightarrow>
            llm_rank_projects client items max_count \<noteq> None)"
proof -
  have kept: "(max_count < int (length (high_priority items)) \<longrightarrow>
               sel = py_take max_count (high_priority items) \<and> n = 0 \<and>
               (0 \<le> max_count \<longrightarrow> sel = take (nat max_count) (high_priority items))) \<and>
            (int (length (high_priority items)) \<le> max_count \<longrightarrow>
               (\<forall>e \<in> set items. map_of e ''priority'' = Some (JStr ''high'') \<longrightarrow> e \<in> set sel) \<and>
               take (length (high_priority items)) sel = high_priority items)"
    if r: "rank_items ok client items max_count = Some (sel, n)" for ok sel n
  proof (intro conjI impI)
    assume "max_count < int (length (high_priority items))"
    then show s: "sel = py_take max_count (high_priority items)" and "n = 0"
      using rank_items_high [OF r assms] by simp_all
    show "sel = take (nat max_count) (high_priority items)" if "0 \<le> max_count"
      using that s by (simp add: py_take_nonneg)
  next
    assume "int (length (high_priority items)) \<le> max_count"
    then obtain rest where sel: "sel = high_priority items @ rest"
      using rank_items_high [OF r assms] by blast
    show "take (length (high_priority items)) sel = high_priority items"
      by (simp add: sel)
    show "\<forall>e \<in> set items. map_of e ''priority'' = Some (JStr ''high'') \<longrightarrow> e \<in> set sel"
      by (simp add: sel high_priority_def)
  qed
  show ?thesis
    using kept [of exp_summary_ok] kept [of proj_summary_ok]
      rank_items_total [of exp_summary_ok items client max_count]
      rank_items_total [of proj_summary_ok items client max_count]
    unfolding llm_rank_experiences_rank_items llm_rank_projects_rank_items
    by blast
qed

theorem high_priority_items_kept_witness:
  "3 < int (length five_experiences)
   \<and> llm_rank_experiences Raised five_experiences 3
       = Some ([entry ''Bolt'' ''high'', entry ''Dune'' ''high'', entry ''Acme'' ''medium''], 1)
   \<and> take 2 [entry ''Bolt'' ''high'', entry ''Dune'' ''high'', entry ''Acme'' ''medium'']
       = high_priority five_experiences
   \<and> llm_rank_projects (Parsed (JArr [JInt 3])) five_experiences 1
       = Some (take (nat 1) (high_priority five_experiences), 0)"
proof -
  have len: "3 < int (length five_experiences)" "1 < int (length five_experiences)"
    by (simp_all add: five_experiences_def)
  have H: "high_priority five_experiences = [entry ''Bolt'' ''high'', entry ''Dune'' ''high'']"
    by (simp add: five_experiences_def high_priority_def entry_def plain_entry_def)
  have r1: "llm_rank_experiences Raised five_experiences 3
       = Some ([entry ''Bolt'' ''high'', entry ''Dune'' ''high'', entry ''Acme'' ''medium''], 1)"
    by code_simp
  have r2: "llm_rank_projects (Parsed (JArr [JInt 3])) five_experiences 1
       = Some ([entry ''Bolt'' ''high''], 0)"
    by code_simp
  show ?thesis
    using high_priority_items_kept [OF len(1), of Raised]
      high_priority_items_kept [OF len(2), of "Parsed (JArr [JInt 3])"] r1 r2 len H
    by simp
qed

subsection \<open>The fallback\<close>

text \<open>
  C3. Once the ranking step is reached (fewer than \<open>max_count\<close> high-priority items, and a
  pool larger than the remaining slots), a service call that raises, a reply that is not
  JSON and a reply that decodes to a value that is not a list all give the same result, and
  no exception leaves the function: the high-priority items followed by the first
  \<open>remaining_slots\<close> items of the pool, in pool order, after one service call.
\<close>

theorem ranking_fallback_is_pool_prefix:
  assumes "client = Raised \<or> client = NotJSON \<or>
           (\<exists>v. client = Parsed v \<and> (\<forall>xs. v \<noteq> JArr xs))"
    and "int (length (high_priority items)) < max_count"
    and "max_count - int (length (high_priority items)) < int (length (ranking_pool items))"
  shows "(list_all exp_summary_ok (ranking_pool items) \<longrightarrow>
            llm_rank_experiences client items max_count =
              Some (high_priority items @
                    take (nat (max_count - int (length (high_priority items))))
                      (ranking_pool items), 1))
       \<and> (list_all proj_summary_ok (ranking_pool items) \<longrightarrow>
            llm_rank_projects client items max_count =
              Some (high_priority items @
                    take (nat (max_count - int (length (high_priority items))))
                      (ranking_pool items), 1))"
  using rank_items_fallback [OF assms, of exp_summary_ok]
    rank_items_fallback [OF assms, of proj_summary_ok]
  by (simp add: llm_rank_experiences_rank_items llm_rank_projects_rank_items)

theorem ranking_fallback_is_pool_prefix_witness:
  "llm_rank_experiences NotJSON five_experiences 3
     = Some (high_priority five_experiences @ take (nat (3 - 2)) (ranking_pool five_experiences), 1)
   \<and> llm_rank_projects (Parsed (JStr ''[1]'')) five_experiences 3
     = Some ([entry ''Bolt'' ''high'', entry ''Dune'' ''high'', entry ''Acme'' ''medium''], 1)"
proof -
  have H: "high_priority five_experiences = [entry ''Bolt'' ''high'', entry ''Dune'' ''high'']"
    by (simp add: five_experiences_def high_priority_def entry_def plain_entry_def)
  have P: "ranking_pool five_experiences
             = [entry ''Acme'' ''medium'', entry ''Echo'' ''medium'', plain_entry ''Cord'']"
    by (simp add: five_experiences_def ranking_pool_def medium_priority_def low_priority_def
          no_priority_def entry_def plain_entry_def)
  have ok: "list_all exp_summary_ok (ranking_pool five_experiences)"
    "list_all proj_summary_ok (ranking_pool five_experiences)"
    unfolding P by (simp_all add: exp_summary_ok_def proj_summary_ok_def entry_def plain_entry_def)
  have c1: "NotJSON = Raised \<or> NotJSON = NotJSON \<or>
           (\<exists>v. NotJSON = Parsed v \<and> (\<forall>xs. v \<noteq> JArr xs))" by simp
  have c2: "Parsed (JStr ''[1]'') = Raised \<or> Parsed (JStr ''[1]'') = NotJSON \<or>
           (\<exists>v. Parsed (JStr ''[1]'') = Parsed v \<and> (\<forall>xs. v \<noteq> JArr xs))" by simp
  have l: "int (length (high_priority five_experiences)) < 3"
    "3 - int (length (high_priority five_experiences)) < int (length (ranking_pool five_experiences))"
    by (simp_all add: H P)
  show ?thesis
    using ranking_fallback_is_pool_prefix [OF c1 l] ranking_fallback_is_pool_prefix [OF c2 l] ok
    by (simp add: H P)
qed

subsection \<open>A reply that is a list\<close>

text \<open>
  C4, as stated, fails. With three entries without priority, \<open>max_count = 2\<close> and the reply
  \<open>[5, 6, 3, 2]\<close>, the specification's wording drops \<open>5\<close> and \<open>6\<close> and selects the third and
  the second entry. The code looks at \<open>selected_indices[:remaining_slots]\<close> only, finds no
  valid index among \<open>5\<close> and \<open>6\<close>, and fills up with the first two entries.
\<close>

theorem ranking_claimed_counterexample:
  "llm_rank_experiences (Parsed (JArr [JInt 5, JInt 6, JInt 3, JInt 2])) three_plain 2
     = Some ([plain_entry ''A'', plain_entry ''B''], 1)
   \<and> high_priority three_plain @
       claimed_ranking (ranking_pool three_plain)
         (2 - int (length (high_priority three_plain))) [JInt 5, JInt 6, JInt 3, JInt 2]
     = [plain_entry ''C'', plain_entry ''B'']
   \<and> llm_rank_experiences (Parsed (JArr [JInt 5, JInt 6, JInt 3, JInt 2])) three_plain 2
     \<noteq> Some (high_priority three_plain @
             claimed_ranking (ranking_pool three_plain)
               (2 - int (length (high_priority three_plain))) [JInt 5, JInt 6, JInt 3, JInt 2], 1)"
  by code_simp

text \<open>
  C4, amended. For every pool whose items are pairwise unequal and every reply that decodes
  to a list with no boolean among its first \<open>remaining_slots\<close> elements, once the ranking
  step is reached, only the first \<open>remaining_slots\<close> elements of the list are examined: each
  of them that is not an integer in \<open>[1, len(pool)]\<close> is dropped, the surviving indices are
  mapped to pool items in the order given, and if fewer than \<open>remaining_slots\<close> items were
  recovered, pool items not already selected are appended in pool order until the slots are
  filled or the pool is exhausted. The selection is the high-priority items followed by that
  list. Nothing is said of pools with equal items or of booleans among the examined elements.
\<close>

theorem ranking_examines_first_slots:
  assumes "client = Parsed (JArr response)"
    and "int (length (high_priority items)) < max_count"
    and "max_count - int (length (high_priority items)) < int (length (ranking_pool items))"
    and "list_all (\<lambda>j. \<not> is_bool j)
           (take (nat (max_count - int (length (high_priority items)))) response)"
    and "pairwise_unequal (ranking_pool items)"
  shows "(list_all exp_summary_ok (ranking_pool items) \<longrightarrow>
            llm_rank_experiences client items max_count =
              Some (high_priority items @
                    examined_ranking (ranking_pool items)
                      (max_count - int (length (high_priority items))) response, 1))
       \<and> (list_all proj_summary_ok (ranking_pool items) \<longrightarrow>
            llm_rank_projects client items max_count =
              Some (high_priority items @
                    examined_ranking (ranking_pool items)
                      (max_count - int (length (high_priority items))) response, 1))"
proof -
  have rs: "0 < max_count - int (length (high_priority items))"
    using assms(2) by simp
  note ex = fill_remaining_examined [OF rs assms(4,5)]
  show ?thesis
    using rank_items_parsed [OF assms(1-3), of exp_summary_ok]
      rank_items_parsed [OF assms(1-3), of proj_summary_ok]
    by (simp add: llm_rank_experiences_rank_items llm_rank_projects_rank_items ex)
qed

theorem ranking_examines_first_slots_witness:
  "pairwise_unequal three_plain
   \<and> llm_rank_experiences (Parsed (JArr [JInt 5, JInt 6, JInt 3, JInt 2])) three_plain 2
     = Some (examined_ranking three_plain 2 [JInt 5, JInt 6, JInt 3, JInt 2], 1)
   \<and> examined_ranking three_plain 2 [JInt 5, JInt 6, JInt 3, JInt 2]
     = [plain_entry ''A'', plain_entry ''B'']
   \<and> llm_rank_projects (Parsed (JArr [JInt 3, JStr ''2'', JInt 1])) three_plain 2
     = Some ([plain_entry ''C'', plain_entry ''A''], 1)"
proof -
  have H: "high_priority three_plain = []"
    by (simp add: three_plain_def high_priority_def plain_entry_def)
  have P: "ranking_pool three_plain = three_plain"
    by (simp add: three_plain_def ranking_pool_def medium_priority_def low_priority_def
          no_priority_def plain_entry_def)
  have ok: "list_all exp_summary_ok (ranking_pool three_plain)"
    "list_all proj_summary_ok (ranking_pool three_plain)"
    unfolding P
    by (simp_all add: three_plain_def exp_summary_ok_def proj_summary_ok_def plain_entry_def)
  have l: "int (length (high_priority three_plain)) < 2"
    "2 - int (length (high_priority three_plain)) < int (length (ranking_pool three_plain))"
    by (simp_all add: H P) (simp add: three_plain_def)
  have n1: "list_all (\<lambda>j. \<not> is_bool j)
              (take (nat (2 - int (length (high_priority three_plain))))
                 [JInt 5, JInt 6, JInt 3, JInt 2])"
    and n2: "list_all (\<lambda>j. \<not> is_bool j)
              (take (nat (2 - int (length (high_priority three_plain))))
                 [JInt 3, JStr ''2'', JInt 1])"
    by (simp_all add: H)
  have pu: "pairwise_unequal three_plain"
    by (simp add: pairwise_unequal_def three_plain_def plain_entry_def lessThan_Suc
          eval_nat_numeral)
  have pu': "pairwise_unequal (ranking_pool three_plain)"
    using pu by (simp add: P)
  have e1: "examined_ranking three_plain 2 [JInt 5, JInt 6, JInt 3, JInt 2]
     = [plain_entry ''A'', plain_entry ''B'']"
    by code_simp
  have e2: "examined_ranking three_plain 2 [JInt 3, JStr ''2'', JInt 1]
     = [plain_entry ''C'', plain_entry ''A'']"
    by code_simp
  show ?thesis
    using ranking_examines_first_slots [OF refl l n1 pu']
      ranking_examines_first_slots [OF refl l n2 pu'] ok e1 e2 pu
    by (simp add: H P)
qed

subsection \<open>The number of selected items\<close>

lemma selection_within_budget:
  assumes "0 \<le> max_count"
  shows "(llm_rank_experiences client items max_count = Some (sel, n) \<longrightarrow>
            int (length sel) \<le> max_count)
       \<and> (llm_rank_projects client items max_count = Some (sel, n) \<longrightarrow>
            int (length sel) \<le> max_count)"
  using rank_items_length [OF _ assms]
  by (auto simp: llm_rank_experiences_rank_items llm_rank_projects_rank_items)

text \<open>
  C5 does not hold of the code. The bound holds (\<open>selection_within_budget\<close>), but the
  selection can be shorter than \<open>n\<close> although there are at least \<open>n\<close> items: with three equal
  entries, \<open>n = 2\<close> and the reply \<open>[1]\<close>, the first entry is selected, the filter
  \<open>exp not in llm_selected\<close> then removes all three entries from the candidates for filling up,
  and one entry is returned. On the same input the fallback returns two. Entries whose
  priority is a string other than \<open>'high'\<close>, \<open>'medium'\<close> and \<open>'low'\<close> fall into none of the four
  tiers: three of them with \<open>n = 2\<close> give the empty selection.
\<close>

theorem slots_left_unfilled_on_equal_entries:
  "int (length repeated_entries) \<ge> 2
   \<and> llm_rank_experiences (Parsed (JArr [JInt 1])) repeated_entries 2
       = Some ([entry ''Acme'' ''medium''], 1)
   \<and> llm_rank_projects (Parsed (JArr [JInt 1])) repeated_entries 2
       = Some ([entry ''Acme'' ''medium''], 1)
   \<and> llm_rank_experiences NotJSON repeated_entries 2
       = Some ([entry ''Acme'' ''medium'', entry ''Acme'' ''medium''], 1)
   \<and> llm_rank_experiences Raised
         [entry ''Acme'' ''High'', entry ''Bolt'' ''High'', entry ''Cord'' ''High''] 2
       = Some ([], 0)"
  by code_simp

subsection \<open>Skills\<close>

lemma map_of_snoc:
  "c \<notin> fst ` set xs \<Longrightarrow> map_of (xs @ [(c, v)]) k = (if k = c then Some v else map_of xs k)"
  by (induction xs) auto


lemma filter_loop_lookup:
  assumes "filter_loop client skills m cs filtered = Some out"
    and "distinct cs" and "set cs \<inter> fst ` set filtered = {}"
  shows "map_of out c =
           (if c \<in> set cs
            then (case category_list skills c of
                    None \<Rightarrow> None
                  | Some xs \<Rightarrow> filter_category (client c) xs m)
            else map_of filtered c)"
  using assms
proof (induction cs arbitrary: filtered)
  case Nil
  then show ?case by simp
next
  case (Cons a cs)
  show ?case
  proof (cases "category_list skills a")
    case None
    then have "filter_loop client skills m (a # cs) filtered = filter_loop client skills m cs filtered"
      by (auto simp: category_list_def split: option.splits json.splits)
    moreover have "map_of filtered a = None"
      using Cons.prems by (auto simp: map_of_eq_None_iff)
    ultimately show ?thesis
      using Cons None by (auto simp: category_list_def)
  next
    case (Some xs)
    then have lk: "map_of skills a = Some (JArr xs)"
      by (auto simp: category_list_def split: option.splits json.splits)
    obtain chosen where ch: "filter_category (client a) xs m = Some chosen"
      and step: "filter_loop client skills m cs (filtered @ [(a, chosen)]) = Some out"
      using Cons.prems(1) lk by (auto split: option.splits)
    have "set cs \<inter> fst ` set (filtered @ [(a, chosen)]) = {}"
      using Cons.prems by auto
    moreover have "a \<notin> fst ` set filtered" using Cons.prems by auto
    ultimately show ?thesis
      using Cons.IH [OF step] Cons.prems(2) Some ch
      by (auto simp: map_of_snoc simp del: map_of_append)
  qed
qed

lemma filter_loop_total:
  assumes "\<forall>c \<in> set cs. \<forall>xs. category_list skills c = Some xs \<longrightarrow> filter_category (client c) xs m \<noteq> None"
  shows "filter_loop client skills m cs filtered \<noteq> None"
  using assms
proof (induction cs arbitrary: filtered)
  case Nil
  then show ?case by simp
next
  case (Cons a cs)
  then show ?case
    by (auto simp: category_list_def split: option.splits json.splits)
qed

lemma py_eq_is_str: "is_str x \<Longrightarrow> py_eq e x = (e = x)"
  by (cases x; cases e) auto

lemma py_in_strs: "is_str x \<Longrightarrow> py_in x xs = (x \<in> set xs)"
  by (auto simp: py_in_def list_ex_iff py_eq_is_str)

lemma py_in_str_list:
  assumes "list_all is_str xs"
  shows "py_in x xs = (x \<in> set xs)"
proof
  assume "py_in x xs"
  then obtain e where e: "e \<in> set xs" "py_eq e x"
    by (auto simp: py_in_def list_ex_iff)
  then have "is_str e" using assms by (simp add: list_all_iff)
  then have "x = e" using e(2) by (cases e; cases x) auto
  then show "x \<in> set xs" using e(1) by simp
next
  assume "x \<in> set xs"
  moreover from this have "is_str x" using assms by (simp add: list_all_iff)
  ultimately show "py_in x xs" by (simp add: py_in_strs)
qed

lemma select_skills_eq:
  assumes "list_all is_str skill_list" and "0 \<le> m"
  shows "select_skills skill_list m response =
           take (nat m)
             (filter (\<lambda>v. v \<in> set skill_list) response @
              filter (\<lambda>s. s \<notin> set (filter (\<lambda>v. v \<in> set skill_list) response)) skill_list)"
proof -
  let ?valid = "filter (\<lambda>v. v \<in> set skill_list) response"
  have v: "filter (\<lambda>skill. py_in skill skill_list) response = ?valid"
    using assms(1) by (simp add: py_in_str_list)
  have "py_in s ?valid = (s \<in> set ?valid)" if "s \<in> set skill_list" for s
    using that assms(1) by (simp add: py_in_strs list_all_iff)
  then have r: "filter (\<lambda>skill. \<not> py_in skill ?valid) skill_list
                  = filter (\<lambda>s. s \<notin> set ?valid) skill_list"
    by (intro filter_cong) auto
  show ?thesis
    using assms(2) unfolding select_skills_def Let_def v r
    by (auto simp: py_take_def)
qed

lemma filter_category_sound:
  assumes "filter_category r skill_list m = Some vs" and "0 \<le> m"
  shows "set vs \<subseteq> set skill_list \<and> int (length vs) \<le> m"
proof (cases "int (length skill_list) \<le> m")
  case True
  then show ?thesis using assms by (simp add: filter_category_def)
next
  case False
  then have strs: "list_all is_str skill_list"
    using assms(1) by (auto simp: filter_category_def split: if_splits)
  have "vs = take (nat m) skill_list \<or> (\<exists>resp. vs = select_skills skill_list m resp)"
    using assms False strs
    by (auto simp: filter_category_def py_take_def split: reply.splits json.splits)
  then show ?thesis
  proof
    assume "vs = take (nat m) skill_list"
    then show ?thesis using assms(2) by (auto dest: in_set_takeD)
  next
    assume "\<exists>resp. vs = select_skills skill_list m resp"
    then obtain resp where "vs = select_skills skill_list m resp" ..
    then have vs: "vs = take (nat m)
             (filter (\<lambda>v. v \<in> set skill_list) resp @
              filter (\<lambda>s. s \<notin> set (filter (\<lambda>v. v \<in> set skill_list) resp)) skill_list)"
      by (simp add: select_skills_eq [OF strs assms(2)])
    have "set vs \<subseteq> set skill_list"
      unfolding vs by (auto dest!: in_set_takeD)
    moreover have "int (length vs) \<le> m"
      unfolding vs using assms(2) by simp
    ultimately show ?thesis by simp
  qed
qed

lemma filter_category_total:
  "list_all is_str skill_list \<Longrightarrow> filter_category r skill_list m \<noteq> None"
  by (auto simp: filter_category_def split: reply.splits json.splits)

lemma category_list_Some: "category_list skills c = Some xs \<longleftrightarrow> map_of skills c = Some (JArr xs)"
  by (auto simp: category_list_def split: option.splits json.splits)

lemma category_list_None: "category_list skills c = None \<longleftrightarrow> (\<forall>xs. map_of skills c \<noteq> Some (JArr xs))"
  by (auto simp: category_list_def split: option.splits json.splits)

lemma llm_filter_skills_lookup:
  assumes "llm_filter_skills client skills m = Some out"
  shows "map_of out c =
           (if c \<in> set categories
            then (case category_list skills c of
                    None \<Rightarrow> None
                  | Some xs \<Rightarrow> filter_category (client c) xs m)
            else None)"
  using filter_loop_lookup [of client skills m categories "[]" out c] assms
  by (simp add: llm_filter_skills_def categories_def)

text \<open>
  C7. Whenever \<open>llm_filter_skills\<close> returns, with \<open>max_per_category \<ge> 0\<close> and whatever the
  service answers for each category: an entry of the result belongs to one of the three
  categories, its values are members of the list stored under that category in the input,
  and there are at most \<open>max_per_category\<close> of them; when the list is longer than
  \<open>max_per_category\<close> and the reply decodes to a list, the entry is the members of the reply
  that occur in the original list, followed by the original skills not among them in
  original order, cut at \<open>max_per_category\<close>; a category that is absent from the input or
  whose value is not a list has no entry. The function returns whenever the listed skills are
  strings.
\<close>

theorem filtered_skills_are_original:
  "(\<forall>out. llm_filter_skills client skills max_per_category = Some out \<and> 0 \<le> max_per_category \<longrightarrow>
      (\<forall>c vs. map_of out c = Some vs \<longrightarrow>
         c \<in> set categories \<and>
         (\<exists>skill_list. map_of skills c = Some (JArr skill_list) \<and>
            set vs \<subseteq> set skill_list \<and> int (length vs) \<le> max_per_category)) \<and>
      (\<forall>c skill_list response.
         c \<in> set categories \<and> map_of skills c = Some (JArr skill_list) \<and>
         max_per_category < int (length skill_list) \<and> client c = Parsed (JArr response) \<longrightarrow>
         map_of out c =
           Some (take (nat max_per_category)
                  (filter (\<lambda>v. v \<in> set skill_list) response @
                   filter (\<lambda>s. s \<notin> set (filter (\<lambda>v. v \<in> set skill_list) response))
                     skill_list))) \<and>
      (\<forall>c. (\<forall>skill_list. map_of skills c \<noteq> Some (JArr skill_list)) \<longrightarrow> map_of out c = None))
   \<and> ((\<forall>c \<in> set categories. \<forall>skill_list. map_of skills c = Some (JArr skill_list) \<longrightarrow>
          list_all is_str skill_list) \<longrightarrow>
       llm_filter_skills client skills max_per_category \<noteq> None)"
proof (intro conjI allI impI)
  fix out c vs
  assume a: "llm_filter_skills client skills max_per_category = Some out \<and> 0 \<le> max_per_category"
    and v: "map_of out c = Some vs"
  note lk = llm_filter_skills_lookup [OF a [THEN conjunct1], of c]
  show "c \<in> set categories"
    using lk v by (auto split: if_splits)
  then obtain xs where xs: "category_list skills c = Some xs"
    and fc: "filter_category (client c) xs max_per_category = Some vs"
    using lk v by (auto split: option.splits)
  show "\<exists>skill_list. map_of skills c = Some (JArr skill_list) \<and>
            set vs \<subseteq> set skill_list \<and> int (length vs) \<le> max_per_category"
    using filter_category_sound [OF fc] a xs by (auto simp: category_list_Some)
next
  fix out c skill_list response
  assume a: "llm_filter_skills client skills max_per_category = Some out \<and> 0 \<le> max_per_category"
    and b: "c \<in> set categories \<and> map_of skills c = Some (JArr skill_list) \<and>
         max_per_category < int (length skill_list) \<and> client c = Parsed (JArr response)"
  note lk = llm_filter_skills_lookup [OF a [THEN conjunct1], of c]
  have cl: "category_list skills c = Some skill_list"
    using b by (simp add: category_list_Some)
  have fc: "map_of out c = filter_category (client c) skill_list max_per_category"
    using lk b cl by simp
  then have "filter_category (client c) skill_list max_per_category \<noteq> None \<longrightarrow> list_all is_str skill_list"
    using b by (auto simp: filter_category_def split: if_splits)
  moreover have "filter_category (client c) skill_list max_per_category \<noteq> None"
  proof
    assume n: "filter_category (client c) skill_list max_per_category = None"
    have "filter_loop client skills max_per_category cs acc = None"
      if "c \<in> set cs" for cs acc
      using that
    proof (induction cs arbitrary: acc)
      case Nil
      then show ?case by simp
    next
      case (Cons a cs)
      then show ?case
        using n b by (cases "a = c") (auto split: option.splits json.splits)
    qed
    then show False using a b by (simp add: llm_filter_skills_def)
  qed
  ultimately have strs: "list_all is_str skill_list" by simp
  show "map_of out c =
           Some (take (nat max_per_category)
                  (filter (\<lambda>v. v \<in> set skill_list) response @
                   filter (\<lambda>s. s \<notin> set (filter (\<lambda>v. v \<in> set skill_list) response))
                     skill_list))"
    using fc b strs a
    by (simp add: filter_category_def select_skills_eq)
next
  fix out c
  assume a: "llm_filter_skills client skills max_per_category = Some out \<and> 0 \<le> max_per_category"
    and n: "\<forall>skill_list. map_of skills c \<noteq> Some (JArr skill_list)"
  show "map_of out c = None"
    using llm_filter_skills_lookup [OF a [THEN conjunct1], of c] n
    by (simp add: category_list_None [symmetric])
next
  assume "\<forall>c \<in> set categories. \<forall>skill_list. map_of skills c = Some (JArr skill_list) \<longrightarrow>
          list_all is_str skill_list"
  then show "llm_filter_skills client skills max_per_category \<noteq> None"
    unfolding llm_filter_skills_def
    by (intro filter_loop_total) (auto simp: category_list_Some filter_category_total)
qed

theorem filtered_skills_are_original_witness:
  "llm_filter_skills sample_skill_reply sample_skills 2
     = Some [(''languages'', [JStr ''Rust'', JStr ''Python''])]
   \<and> map_of [(''languages'', [JStr ''Rust'', JStr ''Python''])] ''technologies'' = None
   \<and> set [JStr ''Rust'', JStr ''Python''] \<subseteq> set [JStr ''Python'', JStr ''Go'', JStr ''Rust'']"
proof -
  have r: "llm_filter_skills sample_skill_reply sample_skills 2
     = Some [(''languages'', [JStr ''Rust'', JStr ''Python''])]"
    by code_simp
  have k: "map_of sample_skills ''languages'' = Some (JArr [JStr ''Python'', JStr ''Go'', JStr ''Rust''])"
    "\<forall>skill_list. map_of sample_skills ''technologies'' \<noteq> Some (JArr skill_list)"
    by (simp_all add: sample_skills_def)
  show ?thesis
    using filtered_skills_are_original [of sample_skill_reply sample_skills 2] r k
    by simp
qed

subsection \<open>Dry run\<close>



section \<open>Step 2: bullet optimisation (step2\_llm\_optimize.py)\<close>

text \<open>
  Here a \<open>str\<close> is the list of its code points: the parser cuts the first character off a
  line, and the bullet sign U+2022 is one character but no byte.
\<close>

type_synonym ustr = "int list"

text \<open>The characters that \<open>str.strip()\<close> removes, those of \<open>str.isspace\<close>.\<close>

definition is_space :: "int \<Rightarrow> bool" where
  "is_space c =
     ((9 \<le> c \<and> c \<le> 13) \<or> (28 \<le> c \<and> c \<le> 32) \<or> c = 133 \<or> c = 160 \<or> c = 5760 \<or>
      (8192 \<le> c \<and> c \<le> 8202) \<or> c = 8232 \<or> c = 8233 \<or> c = 8239 \<or> c = 8287 \<or> c = 12288)"

definition strip :: "ustr \<Rightarrow> ustr" where
  "strip s = rev (dropWhile is_space (rev (dropWhile is_space s)))"

text \<open>\<open>text.split('\n')\<close>: always at least one line.\<close>

fun split_newline :: "ustr \<Rightarrow> ustr list" where
  "split_newline [] = [] # []"
| "split_newline (c # cs) =
     (if c = 10 then [] # split_newline cs
      else (case split_newline cs of
              line # lines \<Rightarrow> (c # line) # lines
            | [] \<Rightarrow> [c] # []))"

text \<open>
  Line 115: the line starts with the bullet sign U+2022, with \<open>-\<close> or with \<open>*\<close>.
\<close>

definition bullet_symbol :: "int \<Rightarrow> bool" where
  "bullet_symbol c = (c = 8226 \<or> c = 45 \<or> c = 42)"

text \<open>The loop of lines 113-119, with \<open>optimized_bullets\<close> as accumulator.\<close>

fun parse_lines :: "ustr list \<Rightarrow> ustr list \<Rightarrow> ustr list" where
  "parse_lines [] optimized_bullets = optimized_bullets"
| "parse_lines (raw # rest) optimized_bullets =
     (let line = strip raw in
        if line \<noteq> [] \<and> bullet_symbol (hd line)
        then
          (let bullet = strip (tl line) in
             if bullet \<noteq> [] then parse_lines rest (optimized_bullets @ [bullet])
             else parse_lines rest optimized_bullets)
        else parse_lines rest optimized_bullets)"

text \<open>
  What the service call amounts to for step 2: an exception caught by \<open>except Exception\<close>
  (line 129), or the text of the reply.
\<close>

datatype completion = ServiceError | Content ustr

text \<open>Lines 109-119: strip the reply, split it into lines, collect the bullets.\<close>

definition parse_response :: "ustr \<Rightarrow> ustr list" where
  "parse_response content = parse_lines (split_newline (strip content)) []"

text \<open>Lines 98-131. Nothing before the \<open>try\<close> can raise for a list of bullets.\<close>

definition optimize_bullet_points :: "completion \<Rightarrow> ustr list \<Rightarrow> ustr list" where
  "optimize_bullet_points client bullets =
     (case client of
        ServiceError \<Rightarrow> bullets
      | Content content \<Rightarrow>
          (let optimized_bullets = parse_response content in
             if length optimized_bullets \<noteq> length bullets then bullets
             else optimized_bullets))"

text \<open>The code points of an ASCII literal, for the examples.\<close>

definition U :: "string \<Rightarrow> ustr" where
  "U s = map of_char s"

definition three_bullets :: "ustr list" where
  "three_bullets = [U ''Led a team'', U ''Cut costs'', U ''Shipped v2'']"

definition two_line_reply :: ustr where
  "two_line_reply = 8226 # U '' Led a platform team'' @ [10] @ U ''- Cut cloud costs''"

definition three_line_reply :: ustr where
  "three_line_reply = two_line_reply @ [10] @ U ''* Shipped v2 on time  ''"

subsection \<open>Shape preservation\<close>

text \<open>
  C2. For every bullet list and every outcome of the service call, a call that raises or a
  reply with any text at all, \<open>optimize_bullet_points\<close> returns a list as long as the input.
  It returns the input list itself when the call raises and whenever the number of bullets
  parsed from the reply differs from the length of the input; otherwise it returns the
  parsed bullets, so a reply is taken whole or not at all.
\<close>

theorem bullet_count_preserved:
  "length (optimize_bullet_points client bullets) = length bullets
   \<and> (client = ServiceError \<longrightarrow> optimize_bullet_points client bullets = bullets)
   \<and> (\<forall>content. client = Content content \<and>
         length (parse_response content) \<noteq> length bullets \<longrightarrow>
         optimize_bullet_points client bullets = bullets)
   \<and> (\<forall>content. client = Content content \<and>
         length (parse_response content) = length bullets \<longrightarrow>
         optimize_bullet_points client bullets = parse_response content)"
  by (cases client) (simp_all add: optimize_bullet_points_def Let_def)

theorem bullet_count_preserved_witness:
  "parse_response two_line_reply = [U ''Led a platform team'', U ''Cut cloud costs'']
   \<and> optimize_bullet_points (Content two_line_reply) three_bullets = three_bullets
   \<and> optimize_bullet_points (Content three_line_reply) three_bullets
       = [U ''Led a platform team'', U ''Cut cloud costs'', U ''Shipped v2 on time'']
   \<and> optimize_bullet_points ServiceError three_bullets = three_bullets"
proof -
  have p2: "parse_response two_line_reply = [U ''Led a platform team'', U ''Cut cloud costs'']"
    by (simp add: parse_response_def two_line_reply_def U_def strip_def is_space_def bullet_symbol_def)
  have p3: "parse_response three_line_reply
              = [U ''Led a platform team'', U ''Cut cloud costs'', U ''Shipped v2 on time'']"
    by (simp add: parse_response_def three_line_reply_def two_line_reply_def U_def strip_def is_space_def bullet_symbol_def)
  have l: "length three_bullets = 3" by (simp add: three_bullets_def)
  show ?thesis
    using bullet_count_preserved [of "Content two_line_reply" three_bullets]
      bullet_count_preserved [of "Content three_line_reply" three_bullets]
      bullet_count_preserved [of ServiceError three_bullets] p2 p3 l
    by simp
qed

section \<open>Step 4: cover letter (step4\_generate\_cover\_letter.py)\<close>

text \<open>Python's truth value of a decoded value.\<close>

fun truthy :: "json \<Rightarrow> bool" where
  "truthy JNull = False"
| "truthy (JBool b) = b"
| "truthy (JInt i) = (i \<noteq> 0)"
| "truthy (JFloat f) = (f \<noteq> Finite 0)"
| "truthy (JStr s) = (s \<noteq> [])"
| "truthy (JArr xs) = (xs \<noteq> [])"
| "truthy (JObj d) = (d \<noteq> [])"

text \<open>\<open>d.get(k, default)\<close>.\<close>

definition dict_get :: "item \<Rightarrow> string \<Rightarrow> json \<Rightarrow> json" where
  "dict_get d k dflt = (case map_of d k of None \<Rightarrow> dflt | Some v \<Rightarrow> v)"

text \<open>
  The resume summary is built before the \<open>try\<close> (lines 60-80), so an exception there leaves
  the function: \<open>personal_info\<close> must be a dict; a section that is truthy must be a list whose
  first two entries are dicts, and the \<open>bullets\<close> of such an entry must accept a slice (a list
  or a str).
\<close>

fun sliceable :: "json \<Rightarrow> bool" where
  "sliceable (JArr xs) = True"
| "sliceable (JStr s) = True"
| "sliceable _ = False"

fun entry_summary_ok :: "json \<Rightarrow> bool" where
  "entry_summary_ok (JObj d) = sliceable (dict_get d ''bullets'' (JArr []))"
| "entry_summary_ok _ = False"

fun section_summary_ok :: "json \<Rightarrow> bool" where
  "section_summary_ok (JArr xs) = list_all entry_summary_ok (take 2 xs)"
| "section_summary_ok v = (\<not> truthy v)"

fun is_dict :: "json \<Rightarrow> bool" where
  "is_dict (JObj d) = True"
| "is_dict _ = False"

definition summary_ok :: "item \<Rightarrow> bool" where
  "summary_ok resume_data =
     (is_dict (dict_get resume_data ''personal_info'' (JObj [])) \<and>
      section_summary_ok (dict_get resume_data ''experience'' (JArr [])) \<and>
      section_summary_ok (dict_get resume_data ''projects'' (JArr [])))"

text \<open>Lines 150-151.\<close>

definition required_fields :: "string list" where
  "required_fields = [''intro'', ''body_paragraphs'', ''closing'', ''company_name'', ''recipient_name'']"

text \<open>
  \<open>field not in cover_letter_data\<close> (line 153) tests the keys of a dict, the elements of a
  list and the substrings of a str, and raises \<open>TypeError\<close> on anything else.
\<close>

fun starts_with :: "string \<Rightarrow> string \<Rightarrow> bool" where
  "starts_with [] s = True"
| "starts_with (p # ps) [] = False"
| "starts_with (p # ps) (c # cs) = (p = c \<and> starts_with ps cs)"

fun substring_in :: "string \<Rightarrow> string \<Rightarrow> bool" where
  "substring_in p [] = (p = [])"
| "substring_in p (c # cs) = (starts_with p (c # cs) \<or> substring_in p cs)"

fun py_contains :: "json \<Rightarrow> string \<Rightarrow> bool option" where
  "py_contains (JObj d) field = Some (field \<in> fst ` set d)"
| "py_contains (JArr xs) field = Some (py_in (JStr field) xs)"
| "py_contains (JStr s) field = Some (substring_in field s)"
| "py_contains _ field = None"

text \<open>
  The loop of lines 152-154: \<open>Value_error\<close> is the \<open>ValueError\<close> raised for a missing field,
  which the inner \<open>except\<close> catches; \<open>Type_error\<close> is caught by the outer one only.
\<close>

datatype validation = Fields_present | Value_error | Type_error

fun check_fields :: "json \<Rightarrow> string list \<Rightarrow> validation" where
  "check_fields cover_letter_data [] = Fields_present"
| "check_fields cover_letter_data (field # rest) =
     (case py_contains cover_letter_data field of
        None \<Rightarrow> Type_error
      | Some False \<Rightarrow> Value_error
      | Some True \<Rightarrow> check_fields cover_letter_data rest)"

text \<open>Lines 157-159: a \<open>body_paragraphs\<close> that is not a list is wrapped into one.\<close>

definition coerce_body :: "item \<Rightarrow> item" where
  "coerce_body cover_letter_data =
     (case map_of cover_letter_data ''body_paragraphs'' of
        Some (JArr paragraphs) \<Rightarrow> cover_letter_data
      | Some v \<Rightarrow> AList.update ''body_paragraphs'' (JArr [v]) cover_letter_data
      | None \<Rightarrow> cover_letter_data)"

text \<open>
  The two f-strings of the inner fallback (lines 172-173). \<open>skills\<close> must be a dict; the
  technologies, when truthy, go through \<open>list(...)\<close>, the first three are joined and must be
  strs. The first experience, when there is one, must be a dict. Any exception raised in
  the handler reaches the outer \<open>except Exception\<close>: the result is then \<open>None\<close> here.
  \<open>repr\<close> stands for Python's formatting of a value that is not a str.
\<close>

fun join_comma :: "string list \<Rightarrow> string" where
  "join_comma [] = []"
| "join_comma [s] = s"
| "join_comma (s # t # ts) = s @ '', '' @ join_comma (t # ts)"

fun py_list :: "json \<Rightarrow> json list option" where
  "py_list (JArr xs) = Some xs"
| "py_list (JStr s) = Some (map (\<lambda>c. JStr [c]) s)"
| "py_list (JObj d) = Some (map JStr (rev (remdups (rev (map fst d)))))"
| "py_list _ = None"

fun str_of :: "json \<Rightarrow> string" where
  "str_of (JStr s) = s"
| "str_of _ = []"

definition background :: "json \<Rightarrow> string option" where
  "background skills =
     (case skills of
        JObj d \<Rightarrow>
          if truthy (dict_get d ''technologies'' JNull)
          then (case py_list (dict_get d ''technologies'' (JArr [])) of
                  None \<Rightarrow> None
                | Some technologies \<Rightarrow>
                    if list_all is_str (take 3 technologies)
                    then Some (join_comma (map str_of (take 3 technologies)))
                    else None)
          else Some ''software development''
      | _ \<Rightarrow> None)"

definition format_value :: "(json \<Rightarrow> string) \<Rightarrow> json \<Rightarrow> string" where
  "format_value repr v = (case v of JStr s \<Rightarrow> s | _ \<Rightarrow> repr v)"

definition recent_role :: "(json \<Rightarrow> string) \<Rightarrow> json \<Rightarrow> string option" where
  "recent_role repr experiences =
     (if truthy experiences
      then (case experiences of
              JArr (JObj d # rest) \<Rightarrow>
                Some (format_value repr (dict_get d ''role'' (JStr ''Software Engineer'')))
            | _ \<Rightarrow> None)
      else Some ''Software Engineer'')"

text \<open>\<open>company_name or "Hiring Manager"\<close>.\<close>

definition or_else :: "string \<Rightarrow> string \<Rightarrow> string" where
  "or_else s dflt = (if s = [] then dflt else s)"

text \<open>The draft of lines 169-178.\<close>

definition basic_template :: "(json \<Rightarrow> string) \<Rightarrow> item \<Rightarrow> string \<Rightarrow> item option" where
  "basic_template repr resume_data company_name =
     (case background (dict_get resume_data ''skills'' (JObj [])) of
        None \<Rightarrow> None
      | Some skills_text \<Rightarrow>
          (case recent_role repr (dict_get resume_data ''experience'' (JArr [])) of
             None \<Rightarrow> None
           | Some role \<Rightarrow>
               Some
                 [(''intro'', JStr ''I am writing to express my strong interest in the position described in your job posting.''),
                  (''body_paragraphs'',
                   JArr [JStr (''With my background in '' @ skills_text @
                               '', I am confident I would be a valuable addition to your team.''),
                         JStr (''In my recent role as '' @ role @
                               '', I have developed skills that directly align with your requirements.'')]),
                  (''closing'', JStr ''I would welcome the opportunity to discuss how my experience and enthusiasm can contribute to your team's success.''),
                  (''company_name'', JStr (or_else company_name ''Hiring Manager'')),
                  (''recipient_name'', JStr ''Hiring Manager'')]))"

text \<open>The draft of lines 183-192.\<close>

definition error_fallback :: "string \<Rightarrow> item" where
  "error_fallback company_name =
     [(''intro'', JStr ''I am writing to express my interest in the position at your company.''),
      (''body_paragraphs'',
       JArr [JStr ''My experience and skills align well with the requirements outlined in your job description.'',
             JStr ''I am excited about the opportunity to contribute to your team and would welcome the chance to discuss my qualifications further.'']),
      (''closing'', JStr ''Thank you for considering my application. I look forward to hearing from you.''),
      (''company_name'', JStr (or_else company_name ''Hiring Manager'')),
      (''recipient_name'', JStr ''Hiring Manager'')]"

text \<open>What the inner handler amounts to: its draft, or the outer draft when it raises.\<close>

definition parse_fallback :: "(json \<Rightarrow> string) \<Rightarrow> item \<Rightarrow> string \<Rightarrow> item" where
  "parse_fallback repr resume_data company_name =
     (case basic_template repr resume_data company_name of
        Some draft \<Rightarrow> draft
      | None \<Rightarrow> error_fallback company_name)"

text \<open>Lines 83-84: \<open>if not company_name: company_name = "the company"\<close>.\<close>

definition default_company :: "string option \<Rightarrow> string" where
  "default_company company_name =
     (case company_name of
        None \<Rightarrow> ''the company''
      | Some name \<Rightarrow> if name = [] then ''the company'' else name)"

text \<open>
  Lines 56-192. The result is \<open>None\<close> when building the summary raises. The reply is the
  decoding of the text after the markdown fences are removed (lines 136-147).
\<close>

definition generate_cover_letter_content ::
  "(json \<Rightarrow> string) \<Rightarrow> reply \<Rightarrow> item \<Rightarrow> string option \<Rightarrow> item option" where
  "generate_cover_letter_content repr client resume_data company_name =
     (if \<not> summary_ok resume_data then None
      else
        let company_name = default_company company_name in
          (case client of
             Raised \<Rightarrow> Some (error_fallback company_name)
           | NotJSON \<Rightarrow> Some (parse_fallback repr resume_data company_name)
           | Parsed cover_letter_data \<Rightarrow>
               (case check_fields cover_letter_data required_fields of
                  Value_error \<Rightarrow> Some (parse_fallback repr resume_data company_name)
                | Type_error \<Rightarrow> Some (error_fallback company_name)
                | Fields_present \<Rightarrow>
                    (case cover_letter_data of
                       JObj d \<Rightarrow> Some (coerce_body d)
                     | _ \<Rightarrow> Some (error_fallback company_name)))))"

text \<open>A draft with all five fields, none of them empty.\<close>

fun nonempty_str :: "json option \<Rightarrow> bool" where
  "nonempty_str (Some (JStr s)) = (s \<noteq> [])"
| "nonempty_str _ = False"

fun nonempty_paragraphs :: "json option \<Rightarrow> bool" where
  "nonempty_paragraphs (Some (JArr ps)) = (ps \<noteq> [] \<and> list_all (\<lambda>p. nonempty_str (Some p)) ps)"
| "nonempty_paragraphs _ = False"

definition complete_draft :: "item \<Rightarrow> bool" where
  "complete_draft d =
     (nonempty_str (map_of d ''intro'') \<and> nonempty_paragraphs (map_of d ''body_paragraphs'') \<and>
      nonempty_str (map_of d ''closing'') \<and> nonempty_str (map_of d ''company_name'') \<and>
      nonempty_str (map_of d ''recipient_name''))"

text \<open>The decoded reply is an object with the given field.\<close>

fun has_field :: "json \<Rightarrow> string \<Rightarrow> bool" where
  "has_field (JObj d) field = (field \<in> fst ` set d)"
| "has_field _ field = False"

definition sample_resume :: item where
  "sample_resume =
     [(''personal_info'', JObj [(''name'', JStr ''Ada'')]),
      (''experience'',
       JArr [JObj [(''company'', JStr ''Acme''), (''role'', JStr ''Data Engineer''),
                   (''bullets'', JArr [JStr ''Built pipelines''])]]),
      (''skills'',
       JObj [(''technologies'', JArr [JStr ''Spark'', JStr ''Airflow'', JStr ''Docker'', JStr ''Kafka''])])]"

definition draft_without_closing :: item where
  "draft_without_closing =
     [(''intro'', JStr ''Dear team''), (''body_paragraphs'', JStr ''One paragraph''),
      (''company_name'', JStr ''Initech''), (''recipient_name'', JStr ''Hiring Manager'')]"

subsection \<open>The fallback drafts\<close>

lemma complete_error_fallback: "c \<noteq> [] \<Longrightarrow> complete_draft (error_fallback c)"
  by (simp add: complete_draft_def error_fallback_def or_else_def)

lemma complete_basic_template:
  "basic_template repr rd c = Some d \<Longrightarrow> c \<noteq> [] \<Longrightarrow> complete_draft d"
  by (auto simp: complete_draft_def basic_template_def or_else_def split: option.splits)

lemma complete_parse_fallback: "c \<noteq> [] \<Longrightarrow> complete_draft (parse_fallback repr rd c)"
  by (auto simp: parse_fallback_def complete_error_fallback complete_basic_template split: option.splits)

lemma check_fields_object:
  "check_fields (JObj d) fs = (if set fs \<subseteq> fst ` set d then Fields_present else Value_error)"
  by (induction fs) (auto split: bool.splits)

lemma default_company_nonempty: "default_company company_name \<noteq> []"
  by (simp add: default_company_def split: option.splits)

lemma generate_failed_validation:
  assumes "summary_ok resume_data"
    and "client = Raised \<or> client = NotJSON \<or>
         (\<exists>v. client = Parsed v \<and> (\<exists>field \<in> set required_fields. \<not> has_field v field))"
  shows "generate_cover_letter_content repr client resume_data company_name
           = Some (error_fallback (default_company company_name))
       \<or> generate_cover_letter_content repr client resume_data company_name
           = Some (parse_fallback repr resume_data (default_company company_name))"
proof (cases client)
  case Raised
  then show ?thesis using assms(1) by (simp add: generate_cover_letter_content_def)
next
  case NotJSON
  then show ?thesis using assms(1) by (simp add: generate_cover_letter_content_def)
next
  case (Parsed v)
  then obtain field where f: "field \<in> set required_fields" "\<not> has_field v field"
    using assms(2) by auto
  show ?thesis
  proof (cases "check_fields v required_fields")
    case Fields_present
    have "\<not> is_dict v"
    proof
      assume "is_dict v"
      then obtain d where d: "v = JObj d" by (cases v) auto
      then have "set required_fields \<subseteq> fst ` set d"
        using Fields_present by (simp add: check_fields_object split: if_splits)
      then show False using f d by auto
    qed
    then show ?thesis
      using assms(1) Parsed Fields_present
      by (cases v) (simp_all add: generate_cover_letter_content_def)
  next
    case Value_error
    then show ?thesis
      using assms(1) Parsed by (simp add: generate_cover_letter_content_def)
  next
    case Type_error
    then show ?thesis
      using assms(1) Parsed by (simp add: generate_cover_letter_content_def)
  qed
qed

text \<open>
  C8. Whenever the summary can be built: a service call that raises gives the fixed draft of
  lines 183-192; so does every other failure, except that a reply that is not JSON, or that
  decodes to a value lacking one of the five fields (a value that is not an object has no
  fields), may also give the draft of lines 169-178, built from the first experience's role
  and the first three technologies. Either draft has all five fields, none of them empty.
  When the reply is an object with all five fields and \<open>body_paragraphs\<close> is a string, the
  reply is returned with \<open>body_paragraphs\<close> replaced by the one-element list of that string.
\<close>

theorem cover_letter_fallback_is_complete:
  assumes "summary_ok resume_data"
  shows "(client = Raised \<longrightarrow>
            generate_cover_letter_content repr client resume_data company_name
              = Some (error_fallback (default_company company_name)))
       \<and> (client = Raised \<or> client = NotJSON \<or>
            (\<exists>v. client = Parsed v \<and> (\<exists>field \<in> set required_fields. \<not> has_field v field)) \<longrightarrow>
            (\<exists>draft. generate_cover_letter_content repr client resume_data company_name = Some draft
               \<and> (draft = error_fallback (default_company company_name) \<or>
                    basic_template repr resume_data (default_company company_name) = Some draft)
               \<and> complete_draft draft))
       \<and> (\<forall>d s. client = Parsed (JObj d) \<and> (\<forall>field \<in> set required_fields. has_field (JObj d) field) \<and>
               map_of d ''body_paragraphs'' = Some (JStr s) \<longrightarrow>
               generate_cover_letter_content repr client resume_data company_name
                 = Some (AList.update ''body_paragraphs'' (JArr [JStr s]) d))"
proof (intro conjI impI allI)
  assume "client = Raised"
  then show "generate_cover_letter_content repr client resume_data company_name
              = Some (error_fallback (default_company company_name))"
    using assms by (simp add: generate_cover_letter_content_def)
next
  let ?c = "default_company company_name"
  assume "client = Raised \<or> client = NotJSON \<or>
            (\<exists>v. client = Parsed v \<and> (\<exists>field \<in> set required_fields. \<not> has_field v field))"
  from generate_failed_validation [OF assms this, of repr company_name]
  show "\<exists>draft. generate_cover_letter_content repr client resume_data company_name = Some draft
               \<and> (draft = error_fallback ?c \<or> basic_template repr resume_data ?c = Some draft)
               \<and> complete_draft draft"
  proof
    assume "generate_cover_letter_content repr client resume_data company_name
              = Some (error_fallback ?c)"
    then show ?thesis
      by (simp add: complete_error_fallback default_company_nonempty)
  next
    assume g: "generate_cover_letter_content repr client resume_data company_name
              = Some (parse_fallback repr resume_data ?c)"
    have "parse_fallback repr resume_data ?c = error_fallback ?c \<or>
          basic_template repr resume_data ?c = Some (parse_fallback repr resume_data ?c)"
      by (simp add: parse_fallback_def split: option.splits)
    then show ?thesis
      using g by (simp add: complete_parse_fallback default_company_nonempty)
  qed
next
  fix d s
  assume a: "client = Parsed (JObj d) \<and> (\<forall>field \<in> set required_fields. has_field (JObj d) field) \<and>
               map_of d ''body_paragraphs'' = Some (JStr s)"
  then have "check_fields (JObj d) required_fields = Fields_present"
    by (auto simp: check_fields_object)
  then show "generate_cover_letter_content repr client resume_data company_name
                 = Some (AList.update ''body_paragraphs'' (JArr [JStr s]) d)"
    using assms a by (simp add: generate_cover_letter_content_def coerce_body_def)
qed

theorem cover_letter_fallback_is_complete_witness:
  "summary_ok sample_resume
   \<and> (\<exists>draft. generate_cover_letter_content str_of (Parsed (JObj draft_without_closing))
                sample_resume None = Some draft
         \<and> basic_template str_of sample_resume ''the company'' = Some draft
         \<and> map_of draft ''body_paragraphs''
             = Some (JArr [JStr ''With my background in Spark, Airflow, Docker, I am confident I would be a valuable addition to your team.'',
                           JStr ''In my recent role as Data Engineer, I have developed skills that directly align with your requirements.''])
         \<and> complete_draft draft)
   \<and> generate_cover_letter_content str_of Raised sample_resume (Some ''Initech'')
       = Some (error_fallback ''Initech'')
   \<and> generate_cover_letter_content str_of
         (Parsed (JObj (draft_without_closing @ [(''closing'', JStr ''Regards'')]))) sample_resume None
       = Some [(''intro'', JStr ''Dear team''), (''body_paragraphs'', JArr [JStr ''One paragraph'']),
               (''company_name'', JStr ''Initech''), (''recipient_name'', JStr ''Hiring Manager''),
               (''closing'', JStr ''Regards'')]"
proof -
  have ok: "summary_ok sample_resume"
    by (simp add: summary_ok_def sample_resume_def dict_get_def)
  have dc: "default_company None = ''the company''" "default_company (Some ''Initech'') = ''Initech''"
    by (simp_all add: default_company_def)
  have missing: "Parsed (JObj draft_without_closing) = Raised \<or>
      Parsed (JObj draft_without_closing) = NotJSON \<or>
      (\<exists>v. Parsed (JObj draft_without_closing) = Parsed v \<and>
           (\<exists>field \<in> set required_fields. \<not> has_field v field))"
    by (simp add: required_fields_def draft_without_closing_def)
  have bt: "basic_template str_of sample_resume ''the company'' \<noteq> None"
    by (simp add: basic_template_def background_def recent_role_def sample_resume_def dict_get_def)
  have ne: "\<And>d. basic_template str_of sample_resume ''the company'' = Some d \<Longrightarrow>
              d \<noteq> error_fallback ''the company''"
    by (auto simp: basic_template_def error_fallback_def split: option.splits)
  have body: "\<And>d. basic_template str_of sample_resume ''the company'' = Some d \<Longrightarrow>
      map_of d ''body_paragraphs''
             = Some (JArr [JStr ''With my background in Spark, Airflow, Docker, I am confident I would be a valuable addition to your team.'',
                           JStr ''In my recent role as Data Engineer, I have developed skills that directly align with your requirements.''])"
    by (auto simp: basic_template_def background_def recent_role_def sample_resume_def dict_get_def
          format_value_def split: option.splits)
  have present: "\<forall>field \<in> set required_fields.
      has_field (JObj (draft_without_closing @ [(''closing'', JStr ''Regards'')])) field"
    by (simp add: required_fields_def draft_without_closing_def)
  have upd: "AList.update ''body_paragraphs'' (JArr [JStr ''One paragraph''])
               (draft_without_closing @ [(''closing'', JStr ''Regards'')])
       = [(''intro'', JStr ''Dear team''), (''body_paragraphs'', JArr [JStr ''One paragraph'']),
               (''company_name'', JStr ''Initech''), (''recipient_name'', JStr ''Hiring Manager''),
               (''closing'', JStr ''Regards'')]"
    by (simp add: draft_without_closing_def)
  have bp: "map_of (draft_without_closing @ [(''closing'', JStr ''Regards'')]) ''body_paragraphs''
              = Some (JStr ''One paragraph'')"
    by (simp add: draft_without_closing_def)
  note t = cover_letter_fallback_is_complete [OF ok]
  have a: "\<exists>draft. generate_cover_letter_content str_of (Parsed (JObj draft_without_closing))
                sample_resume None = Some draft
         \<and> basic_template str_of sample_resume ''the company'' = Some draft
         \<and> map_of draft ''body_paragraphs''
             = Some (JArr [JStr ''With my background in Spark, Airflow, Docker, I am confident I would be a valuable addition to your team.'',
                           JStr ''In my recent role as Data Engineer, I have developed skills that directly align with your requirements.''])
         \<and> complete_draft draft"
  proof -
    obtain draft where d: "generate_cover_letter_content str_of (Parsed (JObj draft_without_closing))
                sample_resume None = Some draft"
      "draft = error_fallback ''the company'' \<or>
         basic_template str_of sample_resume ''the company'' = Some draft"
      "complete_draft draft"
      using t [of "Parsed (JObj draft_without_closing)" str_of None, THEN conjunct2, THEN conjunct1]
        missing dc by auto
    have "draft \<noteq> error_fallback ''the company''"
      using d(1) ok bt ne
      by (auto simp: generate_cover_letter_content_def dc parse_fallback_def required_fields_def
            draft_without_closing_def split: option.splits)
    then have "basic_template str_of sample_resume ''the company'' = Some draft"
      using d(2) by simp
    then show ?thesis using d body by blast
  qed
  have b: "generate_cover_letter_content str_of Raised sample_resume (Some ''Initech'')
       = Some (error_fallback ''Initech'')"
    using t [of Raised str_of "Some ''Initech''", THEN conjunct1] dc by simp
  have c: "generate_cover_letter_content str_of
         (Parsed (JObj (draft_without_closing @ [(''closing'', JStr ''Regards'')]))) sample_resume None
       = Some [(''intro'', JStr ''Dear team''), (''body_paragraphs'', JArr [JStr ''One paragraph'']),
               (''company_name'', JStr ''Initech''), (''recipient_name'', JStr ''Hiring Manager''),
               (''closing'', JStr ''Regards'')]"
    using t [of "Parsed (JObj (draft_without_closing @ [(''closing'', JStr ''Regards'')]))" str_of None,
        THEN conjunct2, THEN conjunct2, rule_format,
        of "draft_without_closing @ [(''closing'', JStr ''Regards'')]" "''One paragraph''"]
      present bp upd
    by simp
  show ?thesis using ok a b c by simp
qed

section \<open>The orchestrator (resume\_pipeline.py)\<close>

text \<open>
  The values that argparse accepts for \<open>--step\<close> (line 71), and the two arguments that decide
  which stages run. The other arguments only change what is passed to the stages.
\<close>

datatype step_choice =
  Only1 | Only2 | Only3 | Only4 | From1To2 | From2To3 | From3To4 | From1To3 | From1To4 | AllSteps

record arguments =
  step :: step_choice
  generate_cover_letter :: bool

text \<open>
  What the orchestrator observes: whether the job description exists (line 134), the exit
  code of the subprocess of each stage, and for the stages \<open>2\<close>, \<open>3\<close> and \<open>4\<close> whether the glob
  for an earlier output of the preceding stage finds a file when that stage looks for it.
\<close>

record environment =
  job_description_exists :: bool
  exit_code :: "string \<Rightarrow> int"
  existing_files :: "string \<Rightarrow> bool"

text \<open>Lines 157-173.\<close>

definition steps_to_run :: "arguments \<Rightarrow> string list" where
  "steps_to_run args =
     (case step args of
        AllSteps \<Rightarrow> [''1'', ''2'', ''3''] @ (if generate_cover_letter args then [''4''] else [])
      | From1To4 \<Rightarrow> [''1'', ''2'', ''3'', ''4'']
      | From1To3 \<Rightarrow> [''1'', ''2'', ''3'']
      | From1To2 \<Rightarrow> [''1'', ''2'']
      | From2To3 \<Rightarrow> [''2'', ''3'']
      | From3To4 \<Rightarrow> [''3'', ''4'']
      | Only1 \<Rightarrow> [''1'']
      | Only2 \<Rightarrow> [''2'']
      | Only3 \<Rightarrow> [''3'']
      | Only4 \<Rightarrow> [''4''])"

text \<open>
  Lines 28-34: \<open>subprocess.run(cmd, check=True)\<close> raises \<open>CalledProcessError\<close> exactly when
  the exit code is not zero.
\<close>

definition run_step :: "environment \<Rightarrow> string \<Rightarrow> bool" where
  "run_step env stage = (exit_code env stage = 0)"

text \<open>
  The variable \<open>success\<close> and the stages launched so far. Each of the four blocks of \<open>main\<close>
  either returns an exit code (\<open>Inl\<close>) or goes on (\<open>Inr\<close>).
\<close>

record progress =
  success :: bool
  launched :: "string list"

text \<open>Lines 183-201.\<close>

definition step1 :: "environment \<Rightarrow> string list \<Rightarrow> progress \<Rightarrow> (int \<times> string list) + progress" where
  "step1 env steps p =
     (if ''1'' \<in> set steps
      then
        (let p = \<lparr>success = run_step env ''1'', launched = launched p @ [''1'']\<rparr> in
           if \<not> success p then Inl (1, launched p) else Inr p)
      else Inr p)"

text \<open>Lines 204-239.\<close>

definition step2 :: "environment \<Rightarrow> string list \<Rightarrow> progress \<Rightarrow> (int \<times> string list) + progress" where
  "step2 env steps p =
     (if ''2'' \<in> set steps \<and> success p
      then
        if ''1'' \<in> set steps \<or> existing_files env ''2''
        then
          (let p = \<lparr>success = run_step env ''2'', launched = launched p @ [''2'']\<rparr> in
             if \<not> success p then Inl (1, launched p) else Inr p)
        else Inl (1, launched p)
      else Inr p)"

text \<open>Lines 242-267.\<close>

definition step3 :: "environment \<Rightarrow> string list \<Rightarrow> progress \<Rightarrow> (int \<times> string list) + progress" where
  "step3 env steps p =
     (if ''3'' \<in> set steps \<and> success p
      then
        if ''2'' \<in> set steps \<or> existing_files env ''3''
        then
          (let p = \<lparr>success = run_step env ''3'', launched = launched p @ [''3'']\<rparr> in
             if \<not> success p then Inl (1, launched p) else Inr p)
        else Inl (1, launched p)
      else Inr p)"

text \<open>Lines 270-306.\<close>

definition step4 :: "environment \<Rightarrow> string list \<Rightarrow> progress \<Rightarrow> (int \<times> string list) + progress" where
  "step4 env steps p =
     (if ''4'' \<in> set steps \<and> success p
      then
        if ''2'' \<in> set steps \<or> existing_files env ''4''
        then
          (let p = \<lparr>success = run_step env ''4'', launched = launched p @ [''4'']\<rparr> in
             if \<not> success p then Inl (1, launched p) else Inr p)
        else Inl (1, launched p)
      else Inr p)"

text \<open>\<open>main\<close> of resume\_pipeline.py: the exit code and the stages launched, in order.\<close>

definition pipeline_main :: "environment \<Rightarrow> arguments \<Rightarrow> int \<times> string list" where
  "pipeline_main env args =
     (if \<not> job_description_exists env then (1, [])
      else
        let steps = steps_to_run args in
          (case step1 env steps \<lparr>success = True, launched = []\<rparr> of
             Inl r \<Rightarrow> r
           | Inr p \<Rightarrow>
               (case step2 env steps p of
                  Inl r \<Rightarrow> r
                | Inr p \<Rightarrow>
                    (case step3 env steps p of
                       Inl r \<Rightarrow> r
                     | Inr p \<Rightarrow>
                         (case step4 env steps p of
                            Inl r \<Rightarrow> r
                          | Inr p \<Rightarrow> (if success p then 0 else 1, launched p))))))"

text \<open>
  The input of a stage is there: the stage that produces it is part of this run (its output
  path is then passed on unchecked, line 207), or an earlier output of that stage is found.
  A stage completes when its input is there and its process exits with zero.
\<close>

definition input_found :: "environment \<Rightarrow> string list \<Rightarrow> string \<Rightarrow> bool" where
  "input_found env steps stage =
     (if stage = ''1'' then True
      else if stage = ''2'' then ''1'' \<in> set steps \<or> existing_files env ''2''
      else ''2'' \<in> set steps \<or> existing_files env stage)"

definition completes :: "environment \<Rightarrow> string list \<Rightarrow> string \<Rightarrow> bool" where
  "completes env steps stage = (input_found env steps stage \<and> exit_code env stage = 0)"

text \<open>Running a list of stages in order and stopping at the first that does not complete.\<close>

fun halting_run :: "environment \<Rightarrow> string list \<Rightarrow> string list \<Rightarrow> int \<times> string list" where
  "halting_run env steps [] = (0, [])"
| "halting_run env steps (stage # rest) =
     (if \<not> input_found env steps stage then (1, [])
      else if exit_code env stage \<noteq> 0 then (1, [stage])
      else (fst (halting_run env steps rest), stage # snd (halting_run env steps rest)))"

definition optimizer_fails :: environment where
  "optimizer_fails =
     \<lparr>job_description_exists = True,
      exit_code = (\<lambda>stage. if stage = ''2'' then 1 else 0),
      existing_files = (\<lambda>stage. False)\<rparr>"

definition all_succeed :: environment where
  "all_succeed =
     \<lparr>job_description_exists = True, exit_code = (\<lambda>stage. 0), existing_files = (\<lambda>stage. False)\<rparr>"

subsection \<open>Halting at the first failure\<close>

lemma pipeline_main_halting_run:
  assumes "job_description_exists env"
  shows "pipeline_main env args = halting_run env (steps_to_run args) (steps_to_run args)"
  using assms
  by (cases "step args"; cases "generate_cover_letter args")
     (simp_all add: pipeline_main_def steps_to_run_def step1_def step2_def step3_def step4_def
        run_step_def input_found_def Let_def)

lemma halting_run_all:
  "\<forall>s \<in> set todo. completes env steps s \<Longrightarrow> halting_run env steps todo = (0, todo)"
  by (induction todo) (auto simp: completes_def)

lemma halting_run_first_failure:
  assumes "\<forall>t \<in> set pre. completes env steps t" and "\<not> completes env steps s"
  shows "halting_run env steps (pre @ s # post) =
           (1, pre @ (if input_found env steps s then [s] else []))"
  using assms by (induction pre) (auto simp: completes_def)

lemma halting_run_code:
  "fst (halting_run env steps todo) = (if \<forall>s \<in> set todo. completes env steps s then 0 else 1)"
  by (induction todo) (auto simp: completes_def)

lemma distinct_steps_to_run: "distinct (steps_to_run args)"
  by (cases "step args") (simp_all add: steps_to_run_def)

text \<open>
  C9. With the job description in place, for every requested sequence of stages: when every
  requested stage completes, the orchestrator launches all of them and returns 0; whenever
  some requested stage does not complete, it returns 1; and when a requested stage is the
  first that does not complete, because its input is missing or its process exits non-zero,
  the orchestrator has launched the stages before it (and that stage itself when its input
  was there) and launches none of the later ones.
\<close>

theorem pipeline_halts_at_first_failure:
  assumes "job_description_exists env"
  shows "((\<forall>s \<in> set (steps_to_run args). completes env (steps_to_run args) s) \<longrightarrow>
            pipeline_main env args = (0, steps_to_run args))
       \<and> ((\<exists>s \<in> set (steps_to_run args). \<not> completes env (steps_to_run args) s) \<longrightarrow>
            fst (pipeline_main env args) = 1)
       \<and> (\<forall>pre s post. steps_to_run args = pre @ s # post \<and>
              (\<forall>t \<in> set pre. completes env (steps_to_run args) t) \<and>
              \<not> completes env (steps_to_run args) s \<longrightarrow>
              pipeline_main env args =
                (1, pre @ (if input_found env (steps_to_run args) s then [s] else [])) \<and>
              (\<forall>t \<in> set post. t \<notin> set (snd (pipeline_main env args))))"
proof (intro conjI impI allI)
  assume "\<forall>s \<in> set (steps_to_run args). completes env (steps_to_run args) s"
  then show "pipeline_main env args = (0, steps_to_run args)"
    by (simp add: pipeline_main_halting_run [OF assms] halting_run_all)
next
  assume "\<exists>s \<in> set (steps_to_run args). \<not> completes env (steps_to_run args) s"
  then show "fst (pipeline_main env args) = 1"
    by (simp add: pipeline_main_halting_run [OF assms] halting_run_code)
next
  fix pre s post
  assume a: "steps_to_run args = pre @ s # post \<and>
              (\<forall>t \<in> set pre. completes env (steps_to_run args) t) \<and>
              \<not> completes env (steps_to_run args) s"
  have "pipeline_main env args = halting_run env (steps_to_run args) (pre @ s # post)"
    using a pipeline_main_halting_run [OF assms, of args] by simp
  also have "\<dots> = (1, pre @ (if input_found env (steps_to_run args) s then [s] else []))"
    using a by (intro halting_run_first_failure) auto
  finally show r: "pipeline_main env args =
                (1, pre @ (if input_found env (steps_to_run args) s then [s] else []))" .
  have "distinct (pre @ s # post)"
    using distinct_steps_to_run [of args] a by simp
  then show "\<forall>t \<in> set post. t \<notin> set (snd (pipeline_main env args))"
    unfolding r by auto
qed

theorem pipeline_halts_at_first_failure_witness:
  "pipeline_main optimizer_fails \<lparr>step = AllSteps, generate_cover_letter = True\<rparr>
     = (1, [''1'', ''2''])
   \<and> pipeline_main all_succeed \<lparr>step = From3To4, generate_cover_letter = False\<rparr> = (1, [])
   \<and> pipeline_main all_succeed \<lparr>step = AllSteps, generate_cover_letter = True\<rparr>
     = (0, [''1'', ''2'', ''3'', ''4''])"
proof -
  let ?a = "\<lparr>step = AllSteps, generate_cover_letter = True\<rparr>"
  let ?b = "\<lparr>step = From3To4, generate_cover_letter = False\<rparr>"
  have j: "job_description_exists optimizer_fails" "job_description_exists all_succeed"
    by (simp_all add: optimizer_fails_def all_succeed_def)
  have sa: "steps_to_run ?a = [''1''] @ ''2'' # [''3'', ''4'']"
    and sb: "steps_to_run ?b = [] @ ''3'' # [''4'']"
    by (simp_all add: steps_to_run_def)
  have c1: "completes optimizer_fails (steps_to_run ?a) ''1''"
    "\<not> completes optimizer_fails (steps_to_run ?a) ''2''"
    "input_found optimizer_fails (steps_to_run ?a) ''2''"
    by (simp_all add: completes_def input_found_def optimizer_fails_def steps_to_run_def)
  have c2: "\<not> completes all_succeed (steps_to_run ?b) ''3''"
    "\<not> input_found all_succeed (steps_to_run ?b) ''3''"
    by (simp_all add: completes_def input_found_def all_succeed_def steps_to_run_def)
  have c3: "\<forall>s \<in> set (steps_to_run ?a). completes all_succeed (steps_to_run ?a) s"
    by (simp add: completes_def input_found_def all_succeed_def steps_to_run_def)
  have t1: "pipeline_main optimizer_fails ?a = (1, [''1'', ''2''])"
    using pipeline_halts_at_first_failure [OF j(1), of ?a, THEN conjunct2, THEN conjunct2,
        rule_format, of "[''1'']" "''2''" "[''3'', ''4'']"] sa c1
    by simp
  have t2: "pipeline_main all_succeed ?b = (1, [])"
    using pipeline_halts_at_first_failure [OF j(2), of ?b, THEN conjunct2, THEN conjunct2,
        rule_format, of "[]" "''3''" "[''4'']"] sb c2
    by simp
  have t3: "pipeline_main all_succeed ?a = (0, [''1'', ''2'', ''3'', ''4''])"
    using pipeline_halts_at_first_failure [OF j(2), of ?a, THEN conjunct1] c3
    by (simp add: steps_to_run_def)
  show ?thesis using t1 t2 t3 by simp
qed

end
